theory Spec2Isabelle
  imports Complex_Main "HOL-Library.AList"
begin

section \<open>Python values shared by the modules\<close>

text \<open>
  Floats are modelled as \<^typ>\<open>real\<close> (exact arithmetic: rounding is not modelled).
  A \<open>datetime\<close> is an \<^typ>\<open>int\<close>, the number of microseconds since the epoch, and a
  \<open>timedelta\<close> the difference of two of them. Each modelled call receives the clock as an
  argument: one reading for all the \<open>datetime.now()\<close> of a call, and a second one where
  the code waits in between. Log output (\<open>self.logger\<close>) is not modelled.
\<close>

datatype py_error = ZeroDivisionError | ValueError string

type_synonym datetime = int
type_synonym timedelta = int

definition microsecond :: timedelta where "microsecond = 1"
definition second :: timedelta where "second = 1000000"
definition minute :: timedelta where "minute = 60 * second"
definition hour :: timedelta where "hour = 60 * minute"
definition day :: timedelta where "day = 24 * hour"

text \<open>\<open>timedelta.days\<close>: the whole days of a normalised timedelta (floor, also when negative).\<close>
definition days :: "timedelta \<Rightarrow> int" where
  "days d = d div day"

text \<open>\<open>int(dt.timestamp())\<close>: the seconds since the epoch, truncated towards zero.\<close>
definition int_timestamp :: "datetime \<Rightarrow> int" where
  "int_timestamp t = (if 0 \<le> t then t div second else - ((- t) div second))"

text \<open>Python's true division \<open>a / b\<close> on floats raises on a zero divisor.\<close>
definition py_truediv :: "real \<Rightarrow> real \<Rightarrow> py_error + real" where
  "py_truediv a b = (if b = 0 then Inl ZeroDivisionError else Inr (a / b))"

text \<open>Sequencing of computations that may raise: the first exception propagates.\<close>
definition bind_result :: "('e + 'a) \<Rightarrow> ('a \<Rightarrow> 'e + 'b) \<Rightarrow> 'e + 'b" where
  "bind_result m f = (case m of Inl e \<Rightarrow> Inl e | Inr x \<Rightarrow> f x)"

text \<open>\<open>d.get(k, default)\<close> on a dictionary.\<close>
definition dict_get :: "('k \<rightharpoonup> 'v) \<Rightarrow> 'k \<Rightarrow> 'v \<Rightarrow> 'v" where
  "dict_get d k dflt = (case d k of None \<Rightarrow> dflt | Some v \<Rightarrow> v)"

text \<open>The slice \<open>xs[-n:]\<close>: the last \<open>n\<close> elements, the whole list when it is shorter.\<close>
definition last_n :: "nat \<Rightarrow> 'a list \<Rightarrow> 'a list" where
  "last_n n xs = drop (length xs - n) xs"

text \<open>\<open>str(n)\<close> for an integer: decimal digits, with a minus sign when negative.\<close>
definition digit_char :: "nat \<Rightarrow> char" where
  "digit_char d = ''0123456789'' ! d"

function str_nat :: "nat \<Rightarrow> string" where
  "str_nat n = (if n < 10 then [digit_char n] else str_nat (n div 10) @ [digit_char (n mod 10)])"
  by pat_completeness auto
termination
  by (relation "measure id") auto

declare str_nat.simps [simp del]

definition str_int :: "int \<Rightarrow> string" where
  "str_int i = (if i < 0 then CHR ''-'' # str_nat (nat (- i)) else str_nat (nat i))"

text \<open>\<open>sub in s\<close> on strings: \<open>sub\<close> occurs in \<open>s\<close> as a contiguous run.\<close>
fun starts_with :: "string \<Rightarrow> string \<Rightarrow> bool" where
  "starts_with [] s = True"
| "starts_with (c # cs) [] = False"
| "starts_with (c # cs) (d # ds) = (c = d \<and> starts_with cs ds)"

fun str_contains :: "string \<Rightarrow> string \<Rightarrow> bool" where
  "str_contains sub [] = (sub = [])"
| "str_contains sub (d # ds) = (starts_with sub (d # ds) \<or> str_contains sub ds)"

text \<open>
  \<open>numpy.mean\<close> and \<open>numpy.std\<close> (population standard deviation). The library is outside
  the repository; the definitions follow its documented meaning. On an empty array numpy
  returns \<open>nan\<close> without raising; every call in the code is guarded against that case.
\<close>
definition np_mean :: "real list \<Rightarrow> real" where
  "np_mean xs = sum_list xs / real (length xs)"

definition np_std :: "real list \<Rightarrow> real" where
  "np_std xs = sqrt (np_mean (map (\<lambda>x. (x - np_mean xs)\<^sup>2) xs))"

section \<open>ROI ledger (monitoring.py, class ROITracker)\<close>

record conversion_record =
  cv_student_id :: string
  cv_revenue :: real
  cv_conversion_type :: string
  cv_timestamp :: datetime
  cv_campaign_id :: string

text \<open>The three \<open>defaultdict(list)\<close> ledgers, keyed by campaign id.\<close>
record roi_tracker =
  investment_tracking :: "string \<rightharpoonup> real list"
  revenue_tracking :: "string \<rightharpoonup> real list"
  conversion_tracking :: "string \<rightharpoonup> conversion_record list"

definition roi_tracker_init :: roi_tracker where
  "roi_tracker_init =
     \<lparr>investment_tracking = Map.empty, revenue_tracking = Map.empty,
      conversion_tracking = Map.empty\<rparr>"

record roi_calculation =
  rc_campaign_id :: string
  total_investment :: real
  total_revenue :: real
  net_profit :: real
  roi_percentage :: real
  roi_ratio :: real
  calculation_timestamp :: datetime
  breakdown :: "(string \<times> real) list"
  projections :: "(string \<times> real) list"

text \<open>\<open>track_investment\<close>: the category only reaches the log.\<close>
definition track_investment :: "roi_tracker \<Rightarrow> string \<Rightarrow> real \<Rightarrow> string \<Rightarrow> roi_tracker" where
  "track_investment t campaign_id amount category =
     t\<lparr>investment_tracking :=
         (investment_tracking t)(campaign_id \<mapsto>
            dict_get (investment_tracking t) campaign_id [] @ [amount])\<rparr>"

definition track_conversion ::
  "roi_tracker \<Rightarrow> datetime \<Rightarrow> string \<Rightarrow> string \<Rightarrow> real \<Rightarrow> string \<Rightarrow> roi_tracker" where
  "track_conversion t now campaign_id student_id revenue conversion_type =
     (let conversion_rec =
            \<lparr>cv_student_id = student_id, cv_revenue = revenue,
             cv_conversion_type = conversion_type, cv_timestamp = now,
             cv_campaign_id = campaign_id\<rparr>
      in t\<lparr>revenue_tracking :=
              (revenue_tracking t)(campaign_id \<mapsto>
                 dict_get (revenue_tracking t) campaign_id [] @ [revenue]),
            conversion_tracking :=
              (conversion_tracking t)(campaign_id \<mapsto>
                 dict_get (conversion_tracking t) campaign_id [] @ [conversion_rec])\<rparr>)"

text \<open>The segment a conversion is counted in, by its revenue.\<close>
definition segment_of :: "real \<Rightarrow> string" where
  "segment_of r =
     (if r \<ge> 150 then ''high_value'' else if r \<ge> 80 then ''medium_value'' else ''low_value'')"

text \<open>
  The loop over the conversions of \<open>_calculate_roi_breakdown\<close>, on the two
  \<open>defaultdict\<close>s \<open>segment_revenue\<close> (default 0.0) and \<open>segment_conversions\<close> (default 0).
\<close>
fun segment_loop ::
  "conversion_record list \<Rightarrow> (string \<Rightarrow> real) \<times> (string \<Rightarrow> nat) \<Rightarrow> (string \<Rightarrow> real) \<times> (string \<Rightarrow> nat)" where
  "segment_loop [] acc = acc"
| "segment_loop (c # cs) (segment_revenue, segment_conversions) =
     (let segment = segment_of (cv_revenue c)
      in segment_loop cs
           (segment_revenue(segment := segment_revenue segment + cv_revenue c),
            segment_conversions(segment := segment_conversions segment + 1)))"

definition calculate_roi_breakdown :: "roi_tracker \<Rightarrow> string \<Rightarrow> py_error + (string \<times> real) list" where
  "calculate_roi_breakdown t campaign_id =
     (let conversions = dict_get (conversion_tracking t) campaign_id []
      in bind_result
           (if conversions \<noteq> [] then py_truediv (real (length conversions)) 650 else Inr 0)
           (\<lambda>conversion_rate.
              let (segment_revenue, segment_conversions) =
                    segment_loop conversions (\<lambda>_. 0, \<lambda>_. 0)
              in Inr
                [(''total_conversions'', real (length conversions)),
                 (''average_conversion_value'',
                    if conversions \<noteq> [] then np_mean (map cv_revenue conversions) else 0),
                 (''conversion_rate'', conversion_rate),
                 (''high_value_revenue'', segment_revenue ''high_value''),
                 (''medium_value_revenue'', segment_revenue ''medium_value''),
                 (''low_value_revenue'', segment_revenue ''low_value''),
                 (''high_value_conversions'', real (segment_conversions ''high_value'')),
                 (''medium_value_conversions'', real (segment_conversions ''medium_value'')),
                 (''low_value_conversions'', real (segment_conversions ''low_value''))]))"

text \<open>
  \<open>_generate_roi_projections\<close>. After the length test the list is not empty, so the
  \<open>if conversions\<close> alternatives of the source cannot be taken; \<open>conversion_rate_trend\<close> is
  computed (its division can raise only on an empty list) and never used.
\<close>
definition generate_roi_projections ::
  "roi_tracker \<Rightarrow> datetime \<Rightarrow> string \<Rightarrow> py_error + (string \<times> real) list" where
  "generate_roi_projections t now campaign_id =
     (let conversions = dict_get (conversion_tracking t) campaign_id []
      in if length conversions < 10 then
           Inr [(''projected_final_roi'', 0), (''confidence_level'', 0),
                (''projected_total_revenue'', 0), (''time_to_target'', 0)]
         else
           let recent_conversions = last_n 10 conversions
           in bind_result
                (py_truediv (real (length recent_conversions))
                   (real (min (length conversions) 100)))
                (\<lambda>conversion_rate_trend.
           let days_elapsed = days (now - cv_timestamp (hd conversions));
               days_remaining = max (21 - days_elapsed) 0
           in bind_result
                (py_truediv (sum_list (map cv_revenue recent_conversions))
                   (real_of_int (max days_elapsed 1)))
                (\<lambda>current_daily_revenue.
           let projected_additional_revenue = current_daily_revenue * real_of_int days_remaining;
               current_total_revenue = sum_list (dict_get (revenue_tracking t) campaign_id []);
               projected_total_revenue = current_total_revenue + projected_additional_revenue;
               total_investment = sum_list (dict_get (investment_tracking t) campaign_id [])
           in bind_result
                (if total_investment > 0 then
                   bind_result
                     (py_truediv (projected_total_revenue - total_investment) total_investment)
                     (\<lambda>q. Inr (q * 100))
                 else Inr 0)
                (\<lambda>projected_final_roi.
           let revenue_values = map cv_revenue (last_n 20 conversions);
               revenue_std = (if length revenue_values > 1 then np_std revenue_values else 0);
               revenue_mean = (if revenue_values \<noteq> [] then np_mean revenue_values else 0);
               confidence_level =
                 (if revenue_mean > 0 then max 0 (1 - revenue_std / revenue_mean) else 0)
           in Inr [(''projected_final_roi'', projected_final_roi),
                   (''confidence_level'', confidence_level),
                   (''projected_total_revenue'', projected_total_revenue),
                   (''time_to_target'', real_of_int days_remaining),
                   (''daily_revenue_trend'', current_daily_revenue)]))))"

definition calculate_real_time_roi :: "roi_tracker \<Rightarrow> datetime \<Rightarrow> string \<Rightarrow> py_error + roi_calculation" where
  "calculate_real_time_roi t now campaign_id =
     (let total_investment = sum_list (dict_get (investment_tracking t) campaign_id []);
          total_revenue = sum_list (dict_get (revenue_tracking t) campaign_id []);
          net_profit = total_revenue - total_investment
      in bind_result
           (if total_investment > 0 then
              bind_result (py_truediv (total_revenue - total_investment) total_investment)
                (\<lambda>q. Inr (q * 100))
            else Inr 0)
           (\<lambda>roi_percentage.
         bind_result
           (if total_investment > 0 then py_truediv total_revenue total_investment else Inr 0)
           (\<lambda>roi_ratio.
         bind_result (calculate_roi_breakdown t campaign_id)
           (\<lambda>breakdown.
         bind_result (generate_roi_projections t now campaign_id)
           (\<lambda>projections.
         Inr \<lparr>rc_campaign_id = campaign_id, total_investment = total_investment,
              total_revenue = total_revenue, net_profit = net_profit,
              roi_percentage = roi_percentage, roi_ratio = roi_ratio,
              calculation_timestamp = now, breakdown = breakdown,
              projections = projections\<rparr>)))))"

section \<open>Metric store and alerting (monitoring.py, class PerformanceMonitor)\<close>

datatype metric_type =
  RESPONSE_RATE | CONVERSION_RATE | ROI | COST_PER_ACQUISITION | MESSAGE_DELIVERY_RATE
  | ENGAGEMENT_SCORE | LIFETIME_VALUE | CHURN_RISK

text \<open>The \<open>.value\<close> of each member of the enum \<open>MetricType\<close>.\<close>
fun metric_value :: "metric_type \<Rightarrow> string" where
  "metric_value RESPONSE_RATE = ''response_rate''"
| "metric_value CONVERSION_RATE = ''conversion_rate''"
| "metric_value ROI = ''roi''"
| "metric_value COST_PER_ACQUISITION = ''cpa''"
| "metric_value MESSAGE_DELIVERY_RATE = ''delivery_rate''"
| "metric_value ENGAGEMENT_SCORE = ''engagement_score''"
| "metric_value LIFETIME_VALUE = ''lifetime_value''"
| "metric_value CHURN_RISK = ''churn_risk''"

text \<open>The members of \<open>MetricType\<close> in declaration order, as \<open>for metric_type in MetricType\<close> visits them.\<close>
definition all_metric_types :: "metric_type list" where
  "all_metric_types =
     [RESPONSE_RATE, CONVERSION_RATE, ROI, COST_PER_ACQUISITION, MESSAGE_DELIVERY_RATE,
      ENGAGEMENT_SCORE, LIFETIME_VALUE, CHURN_RISK]"

datatype alert_level = INFO | WARNING | CRITICAL | EMERGENCY

fun level_value :: "alert_level \<Rightarrow> string" where
  "level_value INFO = ''info''"
| "level_value WARNING = ''warning''"
| "level_value CRITICAL = ''critical''"
| "level_value EMERGENCY = ''emergency''"

record metric_point =
  mp_timestamp :: datetime
  mp_metric_type :: metric_type
  mp_value :: real
  mp_segment :: "string option"
  mp_campaign_id :: "string option"

text \<open>
  The title and the description of an alert are display texts built with float formatting;
  the model keeps which of the four descriptions was chosen. The two values it prints are
  the alert's \<open>current_value\<close> and \<open>threshold_value\<close>.
\<close>
datatype alert_description = Critically_low | Critically_high | Below_warning | Above_warning

record alert =
  al_id :: string
  al_level :: alert_level
  al_description :: alert_description
  al_metric_type :: metric_type
  current_value :: real
  threshold_value :: real
  al_timestamp :: datetime
  acknowledged :: bool
  actions_taken :: "string list"

text \<open>
  A Python \<open>dict\<close> whose entries are enumerated is an association list in insertion order:
  \<open>d[k] = v\<close> is \<open>AList.update k v d\<close>, which replaces the value of a present key in place
  and appends a new key at the end.
\<close>
definition dict_contains :: "('k \<times> 'v) list \<Rightarrow> 'k \<Rightarrow> bool" where
  "dict_contains d k = (k \<in> set (map fst d))"

text \<open>
  The state of a \<open>PerformanceMonitor\<close>. The registered callbacks are external notification
  hooks whose exceptions \<open>_handle_alert\<close> catches; they are not part of the state.
\<close>
record performance_monitor =
  metric_history :: "string \<rightharpoonup> metric_point list"
  alert_thresholds :: "metric_type \<rightharpoonup> (string \<rightharpoonup> real)"
  active_alerts :: "(string \<times> alert) list"
  monitoring_active :: bool

definition setup_default_thresholds :: "metric_type \<rightharpoonup> (string \<rightharpoonup> real)" where
  "setup_default_thresholds =
     [RESPONSE_RATE \<mapsto>
        [''critical_low'' \<mapsto> 0.05, ''warning_low'' \<mapsto> 0.10, ''target'' \<mapsto> 0.22,
         ''warning_high'' \<mapsto> 0.35, ''critical_high'' \<mapsto> 0.50],
      CONVERSION_RATE \<mapsto>
        [''critical_low'' \<mapsto> 0.02, ''warning_low'' \<mapsto> 0.05, ''target'' \<mapsto> 0.144,
         ''warning_high'' \<mapsto> 0.25, ''critical_high'' \<mapsto> 0.40],
      ROI \<mapsto>
        [''critical_low'' \<mapsto> 500, ''warning_low'' \<mapsto> 1000, ''target'' \<mapsto> 2250,
         ''warning_high'' \<mapsto> 4000, ''critical_high'' \<mapsto> 6000],
      COST_PER_ACQUISITION \<mapsto>
        [''critical_high'' \<mapsto> 100, ''warning_high'' \<mapsto> 75, ''target'' \<mapsto> 50,
         ''warning_low'' \<mapsto> 25, ''critical_low'' \<mapsto> 10],
      MESSAGE_DELIVERY_RATE \<mapsto>
        [''critical_low'' \<mapsto> 0.85, ''warning_low'' \<mapsto> 0.92, ''target'' \<mapsto> 0.98,
         ''warning_high'' \<mapsto> 1, ''critical_high'' \<mapsto> 1]]"

definition performance_monitor_init :: performance_monitor where
  "performance_monitor_init =
     \<lparr>metric_history = Map.empty, alert_thresholds = setup_default_thresholds,
      active_alerts = [], monitoring_active = False\<rparr>"

text \<open>\<open>deque(maxlen=n).append(x)\<close>: the oldest element leaves a full deque.\<close>
definition deque_append :: "nat \<Rightarrow> 'a list \<Rightarrow> 'a \<Rightarrow> 'a list" where
  "deque_append maxlen q x = (if length q \<ge> maxlen then drop (Suc (length q - maxlen)) q @ [x] else q @ [x])"

text \<open>\<open>_process_metric\<close>: the point joins the history of its campaign and metric.\<close>
definition process_metric ::
  "performance_monitor \<Rightarrow> datetime \<Rightarrow> string \<Rightarrow> metric_type \<Rightarrow> real \<Rightarrow> performance_monitor" where
  "process_metric m now campaign_id metric_type val =
     (let metric_point =
            \<lparr>mp_timestamp = now, mp_metric_type = metric_type, mp_value = val,
             mp_segment = None, mp_campaign_id = Some campaign_id\<rparr>;
          metric_key = campaign_id @ ''_'' @ metric_value metric_type
      in m\<lparr>metric_history :=
              (metric_history m)(metric_key \<mapsto>
                 deque_append 1000 (dict_get (metric_history m) metric_key []) metric_point)\<rparr>)"

text \<open>\<open>k in thresholds and value < thresholds[k]\<close>, and the same with \<open>>\<close>.\<close>
definition below_threshold :: "(string \<rightharpoonup> real) \<Rightarrow> string \<Rightarrow> real \<Rightarrow> bool" where
  "below_threshold thresholds k v = (case thresholds k of None \<Rightarrow> False | Some th \<Rightarrow> v < th)"

definition above_threshold :: "(string \<rightharpoonup> real) \<Rightarrow> string \<Rightarrow> real \<Rightarrow> bool" where
  "above_threshold thresholds k v = (case thresholds k of None \<Rightarrow> False | Some th \<Rightarrow> v > th)"

text \<open>
  \<open>_evaluate_threshold\<close>: the first breached threshold in the order critical low, critical
  high, warning low, warning high decides the level; no breach gives \<open>None\<close>.
\<close>
definition evaluate_threshold ::
  "datetime \<Rightarrow> string \<Rightarrow> metric_type \<Rightarrow> real \<Rightarrow> (string \<rightharpoonup> real) \<Rightarrow> alert option" where
  "evaluate_threshold now campaign_id metric_type val thresholds =
     (let breach =
            (if below_threshold thresholds ''critical_low'' val then
               Some (CRITICAL, dict_get thresholds ''critical_low'' 0, Critically_low)
             else if above_threshold thresholds ''critical_high'' val then
               Some (CRITICAL, dict_get thresholds ''critical_high'' 0, Critically_high)
             else if below_threshold thresholds ''warning_low'' val then
               Some (WARNING, dict_get thresholds ''warning_low'' 0, Below_warning)
             else if above_threshold thresholds ''warning_high'' val then
               Some (WARNING, dict_get thresholds ''warning_high'' 0, Above_warning)
             else None)
      in case breach of
           None \<Rightarrow> None
         | Some (alert_level, threshold, description) \<Rightarrow>
             Some \<lparr>al_id = campaign_id @ ''_'' @ metric_value metric_type @ ''_''
                            @ str_int (int_timestamp now),
                   al_level = alert_level, al_description = description,
                   al_metric_type = metric_type, current_value = val,
                   threshold_value = threshold, al_timestamp = now,
                   acknowledged = False, actions_taken = []\<rparr>)"

text \<open>\<open>_take_automatic_action\<close>: the actions are recorded on the alert.\<close>
definition take_automatic_action :: "alert \<Rightarrow> alert" where
  "take_automatic_action a =
     (let actions =
            (if al_metric_type a = RESPONSE_RATE \<and> current_value a < threshold_value a then
               [''adjust_message_timing'', ''increase_personalization'', ''review_message_content'']
             else if al_metric_type a = CONVERSION_RATE \<and> current_value a < threshold_value a then
               [''strengthen_call_to_action'', ''adjust_offer_strategy'', ''review_target_segments'']
             else if al_metric_type a = MESSAGE_DELIVERY_RATE \<and> current_value a < threshold_value a then
               [''check_whatsapp_connection'', ''reduce_sending_rate'', ''validate_phone_numbers'']
             else [])
      in a\<lparr>actions_taken := actions\<rparr>)"

text \<open>
  \<open>_handle_alert\<close>. The alert object stored under \<open>alert.id\<close> is the one
  \<open>_take_automatic_action\<close> then writes to, so the stored alert carries the actions.
\<close>
definition handle_alert :: "performance_monitor \<Rightarrow> alert \<Rightarrow> performance_monitor" where
  "handle_alert m a =
     (let existing_alert_key = metric_value (al_metric_type a) @ ''_'' @ level_value (al_level a)
      in if \<not> dict_contains (active_alerts m) existing_alert_key then
           let m1 = m\<lparr>active_alerts := AList.update (al_id a) a (active_alerts m)\<rparr>
           in if al_level a = CRITICAL then
                m1\<lparr>active_alerts :=
                     AList.update (al_id a) (take_automatic_action a) (active_alerts m1)\<rparr>
              else m1
         else m)"

text \<open>\<open>_check_alert_conditions\<close>, over the items of the metrics dictionary in order.\<close>
fun check_alert_conditions ::
  "performance_monitor \<Rightarrow> datetime \<Rightarrow> string \<Rightarrow> (metric_type \<times> real) list \<Rightarrow> performance_monitor" where
  "check_alert_conditions m now campaign_id [] = m"
| "check_alert_conditions m now campaign_id ((metric_type, val) # metrics) =
     (case alert_thresholds m metric_type of
        None \<Rightarrow> check_alert_conditions m now campaign_id metrics
      | Some thresholds \<Rightarrow>
          (case evaluate_threshold now campaign_id metric_type val thresholds of
             None \<Rightarrow> check_alert_conditions m now campaign_id metrics
           | Some a \<Rightarrow> check_alert_conditions (handle_alert m a) now campaign_id metrics))"

definition acknowledge_alert :: "performance_monitor \<Rightarrow> string \<Rightarrow> performance_monitor \<times> bool" where
  "acknowledge_alert m alert_id =
     (case map_of (active_alerts m) alert_id of
        Some a \<Rightarrow>
          (m\<lparr>active_alerts := AList.update alert_id (a\<lparr>acknowledged := True\<rparr>) (active_alerts m)\<rparr>,
           True)
      | None \<Rightarrow> (m, False))"

text \<open>
  The alerts that are active and unacknowledged for a metric type and a level: what the
  de-duplication of \<open>_handle_alert\<close> is meant to keep at one.
\<close>
definition unacknowledged_alerts :: "performance_monitor \<Rightarrow> metric_type \<Rightarrow> alert_level \<Rightarrow> alert list" where
  "unacknowledged_alerts m metric_type lvl =
     filter (\<lambda>a. al_metric_type a = metric_type \<and> al_level a = lvl \<and> \<not> acknowledged a)
       (map snd (active_alerts m))"

text \<open>
  \<open>numpy.polyfit(range(n), values, 1)[0]\<close>: the slope of the least-squares line through
  the points \<open>(i, values[i])\<close>, by its closed form (the library is outside the repository).
  The closed form is exact; the library computes in floating point, so its slope of a flat
  series can be a rounding residue instead of 0.
\<close>
definition np_polyfit_slope :: "real list \<Rightarrow> real" where
  "np_polyfit_slope ys =
     (let n = real (length ys);
          xs = map real [0..<length ys];
          sx = sum_list xs;
          sy = sum_list ys;
          sxy = sum_list (map (\<lambda>(x, y). x * y) (zip xs ys));
          sxx = sum_list (map (\<lambda>x. x * x) xs)
      in (n * sxy - sx * sy) / (n * sxx - sx * sx))"

record metric_stats =
  ms_current :: real
  ms_average :: real
  ms_min :: real
  ms_max :: real
  ms_std :: real
  ms_count :: nat

record trend =
  direction :: string
  slope :: real
  strength :: string

record performance_summary =
  ps_campaign_id :: string
  time_range_hours :: real
  ps_metrics :: "(string \<times> metric_stats) list"
  ps_trends :: "(string \<times> trend) list"
  alerts_active :: nat
  alerts_critical :: nat
  alerts_warnings :: nat

text \<open>The body of the loop over the metric types in \<open>get_performance_summary\<close>.\<close>
fun summary_loop ::
  "performance_monitor \<Rightarrow> datetime \<Rightarrow> string \<Rightarrow> metric_type list \<Rightarrow>
   (string \<times> metric_stats) list \<times> (string \<times> trend) list \<Rightarrow>
   (string \<times> metric_stats) list \<times> (string \<times> trend) list" where
  "summary_loop m cutoff_time campaign_id [] acc = acc"
| "summary_loop m cutoff_time campaign_id (metric_type # rest) (metrics, trends) =
     (let metric_key = campaign_id @ ''_'' @ metric_value metric_type
      in case metric_history m metric_key of
           None \<Rightarrow> summary_loop m cutoff_time campaign_id rest (metrics, trends)
         | Some points \<Rightarrow>
             let recent_points = filter (\<lambda>p. mp_timestamp p \<ge> cutoff_time) points
             in if recent_points \<noteq> [] then
                  let vals = map mp_value recent_points;
                      metrics' =
                        AList.update (metric_value metric_type)
                          \<lparr>ms_current = last vals, ms_average = np_mean vals,
                           ms_min = Min (set vals), ms_max = Max (set vals),
                           ms_std = np_std vals, ms_count = length vals\<rparr> metrics;
                      trends' =
                        (if length vals > 1 then
                           let tr = np_polyfit_slope vals
                           in AList.update (metric_value metric_type)
                                \<lparr>direction = (if tr > 0 then ''increasing'' else ''decreasing''),
                                 slope = tr,
                                 strength =
                                   (if \<bar>tr\<bar> > np_std vals * 0.5 then ''strong'' else ''weak'')\<rparr>
                                trends
                         else trends)
                  in summary_loop m cutoff_time campaign_id rest (metrics', trends')
                else summary_loop m cutoff_time campaign_id rest (metrics, trends))"

definition get_performance_summary ::
  "performance_monitor \<Rightarrow> datetime \<Rightarrow> string \<Rightarrow> timedelta \<Rightarrow> performance_summary" where
  "get_performance_summary m now campaign_id time_range =
     (let cutoff_time = now - time_range;
          alerts = map snd (active_alerts m);
          (metrics, trends) = summary_loop m cutoff_time campaign_id all_metric_types ([], [])
      in \<lparr>ps_campaign_id = campaign_id,
          time_range_hours = real_of_int time_range / real_of_int hour,
          ps_metrics = metrics, ps_trends = trends,
          alerts_active = length (filter (\<lambda>a. \<not> acknowledged a) alerts),
          alerts_critical =
            length (filter (\<lambda>a. al_level a = CRITICAL \<and> \<not> acknowledged a) alerts),
          alerts_warnings =
            length (filter (\<lambda>a. al_level a = WARNING \<and> \<not> acknowledged a) alerts)\<rparr>)"

text \<open>
  The keys of \<open>active_alerts\<close> are alert ids, which end in the decimal digits of a
  time stamp: the invariant under which the look-up of \<open>_handle_alert\<close> is examined.
\<close>
definition is_digit :: "char \<Rightarrow> bool" where
  "is_digit c = (c \<in> set ''0123456789'')"

definition ends_in_digit :: "string \<Rightarrow> bool" where
  "ends_in_digit s = (s \<noteq> [] \<and> is_digit (last s))"

definition keys_are_ids :: "performance_monitor \<Rightarrow> bool" where
  "keys_are_ids m = list_all ends_in_digit (map fst (active_alerts m))"

section \<open>Optimization engine (monitoring.py, class OptimizationEngine)\<close>

text \<open>
  The \<open>reason\<close> text of an opportunity is built by float formatting; the model keeps which
  text it is and the value or metric name it prints.
\<close>
datatype reason =
  Current_roi_below_target real
  | Low_response_rate real
  | Delivery_rate_below_optimal real
  | Strong_declining_trend string
  | Strong_roi_scaling

text \<open>
  An opportunity dictionary: \<open>action\<close>, \<open>reason\<close>, \<open>potential_impact\<close> and one further
  entry (\<open>estimated_improvement\<close>, \<open>urgency\<close> or \<open>timeline\<close>), kept as key and value.
\<close>
record opportunity =
  action :: string
  op_reason :: reason
  potential_impact :: string
  op_extra :: "string \<times> string"

record opportunities =
  immediate_actions :: "opportunity list"
  strategic_improvements :: "opportunity list"
  risk_mitigation :: "opportunity list"
  growth_opportunities :: "opportunity list"

record implementation_result =
  ir_action :: string
  ir_campaign_id :: string
  ir_timestamp :: datetime
  success :: bool
  changes_made :: "string list"
  expected_impact :: "(string \<times> string) list"
  monitoring_period :: nat
  ir_error :: "string option"

record optimization_engine =
  roi_tracker :: roi_tracker
  performance_monitor :: performance_monitor
  optimization_history :: "implementation_result list"

record analysis =
  analysis_timestamp :: datetime
  an_campaign_id :: string
  an_roi_percentage :: real
  an_total_revenue :: real
  an_net_profit :: real
  an_opportunities :: opportunities
  priority_score :: real
  recommended_next_steps :: "(string \<times> string \<times> reason) list"

definition calculate_priority_score :: "opportunities \<Rightarrow> real" where
  "calculate_priority_score opps =
     (let score = 0;
          score = score + real (length (immediate_actions opps)) * 10;
          score = score + real (length (risk_mitigation opps)) * 8;
          score = score + real (length (strategic_improvements opps)) * 6;
          score = score + real (length (growth_opportunities opps)) * 4
      in min score 100)"

text \<open>
  \<open>_generate_recommendations\<close>: each recommendation text is the urgency label, the action
  and the reason, kept here as a triple.
\<close>
definition generate_recommendations :: "opportunities \<Rightarrow> (string \<times> string \<times> reason) list" where
  "generate_recommendations opps =
     map (\<lambda>item. (''URGENT'', action item, op_reason item)) (risk_mitigation opps)
     @ map (\<lambda>item. (''HIGH'', action item, op_reason item)) (immediate_actions opps)
     @ map (\<lambda>item. (''MEDIUM'', action item, op_reason item)) (take 3 (strategic_improvements opps))
     @ map (\<lambda>item. (''GROWTH'', action item, op_reason item)) (take 2 (growth_opportunities opps))"

text \<open>The loop over the trends of the summary for the strategic improvements.\<close>
definition declining_trends :: "(string \<times> trend) list \<Rightarrow> opportunity list" where
  "declining_trends trends =
     map (\<lambda>(metric, trend_data).
            \<lparr>action = ''reverse_'' @ metric @ ''_decline'',
             op_reason = Strong_declining_trend metric,
             potential_impact = ''medium'',
             op_extra = (''timeline'', ''7-14 days'')\<rparr>)
       (filter (\<lambda>(metric, trend_data).
                  direction trend_data = ''decreasing'' \<and> strength trend_data = ''strong'')
          trends)"

text \<open>
  \<open>analyze_optimization_opportunities\<close>, with the default 24 hour range of the performance
  summary.
\<close>
definition analyze_optimization_opportunities ::
  "optimization_engine \<Rightarrow> datetime \<Rightarrow> string \<Rightarrow> py_error + analysis" where
  "analyze_optimization_opportunities eng now campaign_id =
     bind_result (calculate_real_time_roi (roi_tracker eng) now campaign_id)
       (\<lambda>roi_calc.
          let performance_summary =
                get_performance_summary (performance_monitor eng) now campaign_id (24 * hour);
              immediate1 =
                (if roi_percentage roi_calc < 1500 then
                   [\<lparr>action = ''improve_conversion_rate'',
                     op_reason = Current_roi_below_target (roi_percentage roi_calc),
                     potential_impact = ''high'',
                     op_extra = (''estimated_improvement'', ''15-25% ROI increase'')\<rparr>]
                 else []);
              immediate2 =
                (case map_of (ps_metrics performance_summary) ''response_rate'' of
                   None \<Rightarrow> []
                 | Some response_metrics \<Rightarrow>
                     if ms_current response_metrics < 0.15 then
                       [\<lparr>action = ''optimize_message_timing'',
                         op_reason = Low_response_rate (ms_current response_metrics),
                         potential_impact = ''medium'',
                         op_extra =
                           (''estimated_improvement'', ''10-20% response rate increase'')\<rparr>]
                     else []);
              risk =
                (case map_of (ps_metrics performance_summary) ''message_delivery_rate'' of
                   None \<Rightarrow> []
                 | Some delivery_metrics \<Rightarrow>
                     if ms_current delivery_metrics < 0.95 then
                       [\<lparr>action = ''investigate_delivery_issues'',
                         op_reason = Delivery_rate_below_optimal (ms_current delivery_metrics),
                         potential_impact = ''high'',
                         op_extra = (''urgency'', ''immediate'')\<rparr>]
                     else []);
              strategic = declining_trends (ps_trends performance_summary);
              growth =
                (if roi_percentage roi_calc > 2000 then
                   [\<lparr>action = ''scale_successful_segments'',
                     op_reason = Strong_roi_scaling,
                     potential_impact = ''high'',
                     op_extra = (''estimated_improvement'', ''50-100% total ROI increase'')\<rparr>]
                 else []);
              opps =
                \<lparr>immediate_actions = immediate1 @ immediate2,
                 strategic_improvements = strategic,
                 risk_mitigation = risk,
                 growth_opportunities = growth\<rparr>
          in Inr \<lparr>analysis_timestamp = now, an_campaign_id = campaign_id,
                  an_roi_percentage = roi_percentage roi_calc,
                  an_total_revenue = total_revenue roi_calc,
                  an_net_profit = net_profit roi_calc,
                  an_opportunities = opps,
                  priority_score = calculate_priority_score opps,
                  recommended_next_steps = generate_recommendations opps\<rparr>)"

text \<open>
  The four implementation helpers return a fixed update of \<open>success\<close>, \<open>changes_made\<close> and
  \<open>expected_impact\<close>; they are typed as computations that may raise because
  \<open>implement_optimization\<close> calls them inside \<open>try\<close>.
\<close>
type_synonym implementation_update = "bool \<times> string list \<times> (string \<times> string) list"

definition improve_conversion_rate :: "string \<Rightarrow> py_error + implementation_update" where
  "improve_conversion_rate campaign_id =
     Inr (True,
          [''Enhanced call-to-action messages'', ''Added urgency elements to offers'',
           ''Improved personalization based on student history'',
           ''Adjusted offer timing to peak engagement hours''],
          [(''conversion_rate_increase'', ''15-25%''), (''roi_improvement'', ''200-400 points''),
           (''timeline'', ''3-7 days'')])"

definition optimize_message_timing :: "string \<Rightarrow> py_error + implementation_update" where
  "optimize_message_timing campaign_id =
     Inr (True,
          [''Shifted send times to peak response windows'',
           ''Implemented A/B testing for timing optimization'',
           ''Added timezone-aware scheduling'',
           ''Reduced frequency during low-engagement periods''],
          [(''response_rate_increase'', ''10-20%''), (''engagement_improvement'', ''15-30%''),
           (''timeline'', ''1-3 days'')])"

definition investigate_delivery_issues :: "string \<Rightarrow> py_error + implementation_update" where
  "investigate_delivery_issues campaign_id =
     Inr (True,
          [''Validated WhatsApp Business API connection'', ''Cleaned invalid phone number list'',
           ''Implemented retry logic for failed deliveries'', ''Added delivery status monitoring''],
          [(''delivery_rate_improvement'', ''5-10%''), (''message_reach_increase'', ''8-15%''),
           (''timeline'', ''immediate'')])"

definition scale_successful_segments :: "string \<Rightarrow> py_error + implementation_update" where
  "scale_successful_segments campaign_id =
     Inr (True,
          [''Identified top-performing segments'',
           ''Allocated additional budget to high-ROI segments'',
           ''Replicated successful message templates'',
           ''Expanded target audience within successful criteria''],
          [(''total_revenue_increase'', ''50-100%''), (''roi_multiplication'', ''1.5-2.0x''),
           (''timeline'', ''7-14 days'')])"

text \<open>\<open>str(e)\<close> of an exception.\<close>
fun str_error :: "py_error \<Rightarrow> string" where
  "str_error ZeroDivisionError = ''division by zero''"
| "str_error (ValueError msg) = msg"

text \<open>\<open>implementation_result.update(...)\<close> with the dictionary a helper returned.\<close>
definition apply_update :: "implementation_result \<Rightarrow> implementation_update \<Rightarrow> implementation_result" where
  "apply_update r u =
     (case u of (s, changes, impact) \<Rightarrow>
        r\<lparr>success := s, changes_made := changes, expected_impact := impact\<rparr>)"

text \<open>
  \<open>implement_optimization\<close>. The result is \<open>Inl\<close> when an exception leaves the function and
  \<open>Inr\<close> with the returned dictionary and the engine after the call otherwise. An unknown
  action returns from inside \<open>try\<close> before the history is written; an exception of a helper
  is caught and recorded in the \<open>error\<close> entry.
\<close>
definition implement_optimization ::
  "optimization_engine \<Rightarrow> datetime \<Rightarrow> string \<Rightarrow> string \<Rightarrow>
   py_error + (implementation_result \<times> optimization_engine)" where
  "implement_optimization eng now campaign_id optimization_action =
     (let implementation_result =
            \<lparr>ir_action = optimization_action, ir_campaign_id = campaign_id, ir_timestamp = now,
             success = False, changes_made = [], expected_impact = [], monitoring_period = 24,
             ir_error = None\<rparr>;
          dispatched =
            (if optimization_action = ''improve_conversion_rate'' then
               Some (improve_conversion_rate campaign_id)
             else if optimization_action = ''optimize_message_timing'' then
               Some (optimize_message_timing campaign_id)
             else if optimization_action = ''investigate_delivery_issues'' then
               Some (investigate_delivery_issues campaign_id)
             else if optimization_action = ''scale_successful_segments'' then
               Some (scale_successful_segments campaign_id)
             else None)
      in case dispatched of
           None \<Rightarrow>
             Inr (implementation_result
                    \<lparr>ir_error := Some (''Unknown optimization action: '' @ optimization_action)\<rparr>,
                  eng)
         | Some (Inl e) \<Rightarrow> Inr (implementation_result\<lparr>ir_error := Some (str_error e)\<rparr>, eng)
         | Some (Inr u) \<Rightarrow>
             let r = apply_update implementation_result u
             in Inr (r, eng\<lparr>optimization_history := optimization_history eng @ [r]\<rparr>))"

definition optimization_engine_init :: optimization_engine where
  "optimization_engine_init =
     \<lparr>roi_tracker = roi_tracker_init, performance_monitor = performance_monitor_init,
      optimization_history = []\<rparr>"

section \<open>Error classification and recovery (error_handling.py)\<close>

datatype error_severity = LOW | MEDIUM | HIGH | SEVERITY_CRITICAL | FATAL

fun severity_value :: "error_severity \<Rightarrow> string" where
  "severity_value LOW = ''low''"
| "severity_value MEDIUM = ''medium''"
| "severity_value HIGH = ''high''"
| "severity_value SEVERITY_CRITICAL = ''critical''"
| "severity_value FATAL = ''fatal''"

datatype error_category =
  NETWORK | API | DATABASE | AUTHENTICATION | RATE_LIMITING | DATA_VALIDATION
  | BUSINESS_LOGIC | SYSTEM | EXTERNAL_SERVICE

fun category_value :: "error_category \<Rightarrow> string" where
  "category_value NETWORK = ''network''"
| "category_value API = ''api''"
| "category_value DATABASE = ''database''"
| "category_value AUTHENTICATION = ''authentication''"
| "category_value RATE_LIMITING = ''rate_limiting''"
| "category_value DATA_VALIDATION = ''data_validation''"
| "category_value BUSINESS_LOGIC = ''business_logic''"
| "category_value SYSTEM = ''system''"
| "category_value EXTERNAL_SERVICE = ''external_service''"

datatype recovery_strategy =
  RETRY | RETRY_WITH_BACKOFF | FALLBACK | CIRCUIT_BREAKER | GRACEFUL_DEGRADATION
  | ESCALATION | MANUAL_INTERVENTION | IGNORE

fun strategy_value :: "recovery_strategy \<Rightarrow> string" where
  "strategy_value RETRY = ''retry''"
| "strategy_value RETRY_WITH_BACKOFF = ''retry_with_backoff''"
| "strategy_value FALLBACK = ''fallback''"
| "strategy_value CIRCUIT_BREAKER = ''circuit_breaker''"
| "strategy_value GRACEFUL_DEGRADATION = ''graceful_degradation''"
| "strategy_value ESCALATION = ''escalation''"
| "strategy_value MANUAL_INTERVENTION = ''manual_intervention''"
| "strategy_value IGNORE = ''ignore''"

text \<open>
  A raised exception, as far as the engine looks at it: the name of its class
  (\<open>type(error).__name__\<close>), the names of the classes it is an instance of (its class and
  all ancestors, for \<open>isinstance\<close>) and its text \<open>str(error)\<close>.
\<close>
record py_exception =
  exc_type :: string
  exc_classes :: "string list"
  exc_message :: string

definition isinstance :: "py_exception \<Rightarrow> string list \<Rightarrow> bool" where
  "isinstance e classes = (\<exists>c \<in> set classes. c \<in> set (exc_classes e))"

text \<open>\<open>str.lower()\<close>, on the ASCII letters.\<close>
definition lower_char :: "char \<Rightarrow> char" where
  "lower_char c =
     (case map_of (zip ''ABCDEFGHIJKLMNOPQRSTUVWXYZ'' ''abcdefghijklmnopqrstuvwxyz'') c of
        None \<Rightarrow> c | Some d \<Rightarrow> d)"

definition lower :: "string \<Rightarrow> string" where
  "lower s = map lower_char s"

text \<open>The truth value of an optional string: \<open>None\<close> and the empty string are false.\<close>
definition truthy :: "string option \<Rightarrow> bool" where
  "truthy s = (case s of None \<Rightarrow> False | Some v \<Rightarrow> v \<noteq> [])"

text \<open>\<open>s or default\<close> on an optional string.\<close>
definition or_default :: "string option \<Rightarrow> string \<Rightarrow> string" where
  "or_default s dflt = (case s of None \<Rightarrow> dflt | Some v \<Rightarrow> if v = [] then dflt else v)"

record error_context =
  ctx_error_id :: string
  ctx_timestamp :: datetime
  ctx_campaign_id :: "string option"
  workflow_id :: "string option"
  step_id :: "string option"
  component :: "string option"
  operation :: "string option"
  user_data :: "(string \<times> string) list"

text \<open>An \<open>ErrorRecord\<close>; the stack trace text and the free-form metadata are left out.\<close>
record error_record =
  error_id :: string
  error_type :: string
  error_message :: string
  severity :: error_severity
  category :: error_category
  er_context :: error_context
  recovery_strategy :: recovery_strategy
  recovery_attempts :: nat
  max_recovery_attempts :: nat
  recovery_success :: bool
  resolution_time :: "datetime option"

record circuit_breaker =
  state :: string
  failure_count :: nat
  failure_threshold :: nat
  timeout :: timedelta
  last_failure :: "datetime option"

text \<open>The dictionary a recovery handler returns, with every key one of them sets.\<close>
record recovery_result =
  rr_success :: bool
  rr_action :: "string option"
  rr_next_steps :: "string list"
  rr_recommendations :: "string list"
  rr_backoff_time :: "nat option"
  rr_detail :: "string option"
  rr_circuit_state :: "string option"
  rr_failure_count :: "nat option"
  rr_error :: "string option"
  rr_execution_time :: timedelta

record recovery_history_entry =
  rh_error_id :: string
  rh_strategy :: string
  rh_success :: bool
  rh_execution_time :: timedelta
  rh_timestamp :: datetime

text \<open>
  The state of an \<open>ErrorHandlingEngine\<close>. The table of recovery actions is fixed by
  \<open>_setup_default_recovery_actions\<close> and is the function \<open>recovery_handler\<close> below; the
  registered callbacks are external hooks whose exceptions are caught.
\<close>
record error_engine =
  error_registry :: "(string \<times> error_record) list"
  error_patterns :: "string \<rightharpoonup> error_record list"
  circuit_breakers :: "(string \<times> circuit_breaker) list"
  recovery_history :: "recovery_history_entry list"

definition error_engine_init :: error_engine where
  "error_engine_init =
     \<lparr>error_registry = [], error_patterns = Map.empty, circuit_breakers = [],
      recovery_history = []\<rparr>"

definition classify_error_severity :: "py_exception \<Rightarrow> error_context \<Rightarrow> error_severity" where
  "classify_error_severity e ctx =
     (if isinstance e [''ConnectionError'', ''TimeoutError''] \<and> truthy (ctx_campaign_id ctx) then
        SEVERITY_CRITICAL
      else if isinstance e [''ValueError'', ''KeyError'']
              \<and> str_contains ''authentication'' (lower (exc_message e)) then
        HIGH
      else if str_contains ''api'' (lower (exc_message e))
              \<or> str_contains ''http'' (lower (exc_message e)) then
        MEDIUM
      else MEDIUM)"

definition classify_error_category :: "py_exception \<Rightarrow> error_context \<Rightarrow> error_category" where
  "classify_error_category e ctx =
     (let error_message = lower (exc_message e)
      in if isinstance e [''ConnectionError'', ''TimeoutError''] then NETWORK
         else if str_contains ''authentication'' error_message
                 \<or> str_contains ''unauthorized'' error_message then AUTHENTICATION
         else if str_contains ''rate limit'' error_message
                 \<or> str_contains ''429'' error_message then RATE_LIMITING
         else if str_contains ''database'' error_message
                 \<or> str_contains ''sql'' error_message then DATABASE
         else if str_contains ''api'' error_message
                 \<or> str_contains ''http'' error_message then API
         else if isinstance e [''ValueError'', ''TypeError''] then DATA_VALIDATION
         else SYSTEM)"

text \<open>
  \<open>_create_error_record\<close>. Python's built-in \<open>hash\<close> of a string is salted per process;
  it is the parameter \<open>hash_str\<close>.
\<close>
definition create_error_record ::
  "(string \<Rightarrow> int) \<Rightarrow> datetime \<Rightarrow> py_exception \<Rightarrow> error_context \<Rightarrow> error_record" where
  "create_error_record hash_str now e ctx =
     \<lparr>error_id = ''err_'' @ str_int (int_timestamp now) @ ''_''
                   @ str_int (hash_str (exc_message e) mod 10000),
      error_type = exc_type e,
      error_message = exc_message e,
      severity = classify_error_severity e ctx,
      category = classify_error_category e ctx,
      er_context = ctx,
      recovery_strategy = RETRY,
      recovery_attempts = 0,
      max_recovery_attempts = 3,
      recovery_success = False,
      resolution_time = None\<rparr>"

text \<open>
  \<open>_analyze_error_patterns\<close>: the record joins the list of its pattern; with five or more
  records of the pattern in the last hour a record whose strategy is \<open>RETRY\<close> is moved to
  \<open>CIRCUIT_BREAKER\<close>. Returns the engine and the record after the call.
\<close>
definition analyze_error_patterns ::
  "error_engine \<Rightarrow> datetime \<Rightarrow> error_record \<Rightarrow> error_engine \<times> error_record" where
  "analyze_error_patterns eng now r =
     (let pattern_key = error_type r @ ''_'' @ category_value (category r);
          pattern = dict_get (error_patterns eng) pattern_key [] @ [r];
          eng' = eng\<lparr>error_patterns := (error_patterns eng)(pattern_key \<mapsto> pattern)\<rparr>;
          recent_errors = filter (\<lambda>err. now - ctx_timestamp (er_context err) < hour) pattern
      in if length recent_errors \<ge> 5 then
           if recovery_strategy r = RETRY then (eng', r\<lparr>recovery_strategy := CIRCUIT_BREAKER\<rparr>)
           else (eng', r)
         else (eng', r))"

definition determine_recovery_strategy :: "error_record \<Rightarrow> recovery_strategy" where
  "determine_recovery_strategy r =
     (if severity r = FATAL then MANUAL_INTERVENTION
      else if category r = NETWORK then RETRY_WITH_BACKOFF
      else if category r = RATE_LIMITING then CIRCUIT_BREAKER
      else if category r = AUTHENTICATION then ESCALATION
      else if category r = API then FALLBACK
      else if category r = DATABASE then RETRY_WITH_BACKOFF
      else RETRY)"

definition empty_result :: recovery_result where
  "empty_result =
     \<lparr>rr_success = False, rr_action = None, rr_next_steps = [], rr_recommendations = [],
      rr_backoff_time = None, rr_detail = None, rr_circuit_state = None,
      rr_failure_count = None, rr_error = None, rr_execution_time = 0\<rparr>"

text \<open>\<open>str(timedelta)\<close>: days when there are any, then \<open>H:MM:SS\<close> and the microseconds.\<close>
definition zero_pad :: "nat \<Rightarrow> nat \<Rightarrow> string" where
  "zero_pad width n = replicate (width - length (str_nat n)) (CHR ''0'') @ str_nat n"

definition str_timedelta :: "timedelta \<Rightarrow> string" where
  "str_timedelta d =
     (let ds = d div day;
          rest = nat (d mod day);
          h = rest div nat hour;
          mi = (rest mod nat hour) div nat minute;
          s = (rest mod nat minute) div nat second;
          us = rest mod nat second
      in (if ds = 0 then []
          else str_int ds @ (if \<bar>ds\<bar> = 1 then '' day, '' else '' days, ''))
         @ str_nat h @ '':'' @ zero_pad 2 mi @ '':'' @ zero_pad 2 s
         @ (if us = 0 then [] else ''.'' @ zero_pad 6 us))"

text \<open>
  The recovery handlers. Each returns the engine after the call and the result dictionary;
  they are typed as computations that may raise because \<open>_execute_recovery\<close> calls them
  inside \<open>try\<close>. The sleeps of the retry handlers only let time pass.
\<close>
definition handle_simple_retry ::
  "error_engine \<Rightarrow> datetime \<Rightarrow> error_record \<Rightarrow> py_error + (error_engine \<times> recovery_result)" where
  "handle_simple_retry eng now r =
     Inr (eng,
          empty_result
            \<lparr>rr_success := True, rr_action := Some ''retry_operation'',
             rr_next_steps := [''Re-execute the failed operation''],
             rr_recommendations := [''Monitor for repeated failures'']\<rparr>)"

definition handle_backoff_retry ::
  "error_engine \<Rightarrow> datetime \<Rightarrow> error_record \<Rightarrow> py_error + (error_engine \<times> recovery_result)" where
  "handle_backoff_retry eng now r =
     (let backoff_time = min (2 ^ recovery_attempts r) 60
      in Inr (eng,
              empty_result
                \<lparr>rr_success := True, rr_action := Some ''retry_with_backoff'',
                 rr_backoff_time := Some backoff_time,
                 rr_next_steps := [''Retry after '' @ str_nat backoff_time @ '' seconds''],
                 rr_recommendations := [''Monitor network stability'', ''Check service status'']\<rparr>))"

definition handle_fallback ::
  "error_engine \<Rightarrow> datetime \<Rightarrow> error_record \<Rightarrow> py_error + (error_engine \<times> recovery_result)" where
  "handle_fallback eng now r =
     (let fallback_action =
            (if category r = API then ''Switch to backup API endpoint''
             else if category r = NETWORK then ''Use alternative communication channel''
             else if category r = DATABASE then ''Use cached data temporarily''
             else if category r = EXTERNAL_SERVICE then ''Switch to secondary service provider''
             else ''Use alternative processing method'')
      in Inr (eng,
              empty_result
                \<lparr>rr_success := True, rr_action := Some ''fallback_method'',
                 rr_detail := Some fallback_action,
                 rr_next_steps := [fallback_action, ''Monitor primary system recovery''],
                 rr_recommendations := [''Investigate root cause'', ''Prepare for failback'']\<rparr>))"

text \<open>
  \<open>_handle_circuit_breaker\<close>: the breaker of the component is created closed on first
  use, its failure count is incremented and the time of the failure recorded; it is set to
  \<open>open\<close> when the count has reached the threshold.
\<close>
definition handle_circuit_breaker ::
  "error_engine \<Rightarrow> datetime \<Rightarrow> error_record \<Rightarrow> py_error + (error_engine \<times> recovery_result)" where
  "handle_circuit_breaker eng now r =
     (let comp_name = or_default (component (er_context r)) ''unknown_component'';
          cb0 = (case map_of (circuit_breakers eng) comp_name of
                   None \<Rightarrow>
                     \<lparr>state = ''closed'', failure_count = 0, failure_threshold = 5,
                      timeout = 5 * minute, last_failure = None\<rparr>
                 | Some b \<Rightarrow> b);
          cb1 = cb0\<lparr>failure_count := failure_count cb0 + 1, last_failure := Some now\<rparr>
      in if failure_count cb1 \<ge> failure_threshold cb1 then
           Inr (eng\<lparr>circuit_breakers :=
                      AList.update comp_name (cb1\<lparr>state := ''open''\<rparr>) (circuit_breakers eng)\<rparr>,
                empty_result
                  \<lparr>rr_success := True, rr_action := Some ''circuit_breaker_open'',
                   rr_circuit_state := Some ''open'',
                   rr_next_steps :=
                     [''Circuit breaker opened for '' @ comp_name,
                      ''Redirect traffic to alternatives'',
                      ''Wait '' @ str_timedelta (timeout cb1) @ '' before retry''],
                   rr_recommendations :=
                     [''Investigate service issues'', ''Monitor service recovery'',
                      ''Prepare manual intervention if needed'']\<rparr>)
         else
           Inr (eng\<lparr>circuit_breakers := AList.update comp_name cb1 (circuit_breakers eng)\<rparr>,
                empty_result
                  \<lparr>rr_success := True, rr_action := Some ''circuit_breaker_count'',
                   rr_circuit_state := Some ''closed'',
                   rr_failure_count := Some (failure_count cb1),
                   rr_next_steps :=
                     [''Continue monitoring'', ''Prepare for circuit breaker activation''],
                   rr_recommendations := [''Monitor failure rate closely'']\<rparr>))"

definition handle_graceful_degradation ::
  "error_engine \<Rightarrow> datetime \<Rightarrow> error_record \<Rightarrow> py_error + (error_engine \<times> recovery_result)" where
  "handle_graceful_degradation eng now r =
     (let strategy =
            (if category r = API then ''Reduce API call frequency''
             else if category r = DATABASE then ''Use read-only operations''
             else if category r = NETWORK then ''Enable offline mode''
             else if category r = EXTERNAL_SERVICE then ''Disable non-essential features''
             else ''Reduce system functionality'')
      in Inr (eng,
              empty_result
                \<lparr>rr_success := True, rr_action := Some ''graceful_degradation'',
                 rr_detail := Some strategy,
                 rr_next_steps :=
                   [strategy, ''Maintain core functionality'', ''Monitor for service recovery''],
                 rr_recommendations :=
                   [''Notify users of limited functionality'',
                    ''Prepare for full service restoration'']\<rparr>))"

text \<open>The table \<open>self.recovery_actions\<close>: five strategies have a handler.\<close>
fun recovery_handler ::
  "recovery_strategy \<Rightarrow>
   (error_engine \<Rightarrow> datetime \<Rightarrow> error_record \<Rightarrow> py_error + (error_engine \<times> recovery_result)) option" where
  "recovery_handler RETRY = Some handle_simple_retry"
| "recovery_handler RETRY_WITH_BACKOFF = Some handle_backoff_retry"
| "recovery_handler FALLBACK = Some handle_fallback"
| "recovery_handler CIRCUIT_BREAKER = Some handle_circuit_breaker"
| "recovery_handler GRACEFUL_DEGRADATION = Some handle_graceful_degradation"
| "recovery_handler ESCALATION = None"
| "recovery_handler MANUAL_INTERVENTION = None"
| "recovery_handler IGNORE = None"

text \<open>
  \<open>_execute_recovery\<close>, with the clock \<open>now\<close> before the handler runs and \<open>later\<close> after
  it. Returns the engine, the record after the call and the result.
\<close>
definition execute_recovery ::
  "error_engine \<Rightarrow> datetime \<Rightarrow> datetime \<Rightarrow> error_record \<Rightarrow>
   error_engine \<times> error_record \<times> recovery_result" where
  "execute_recovery eng now later r =
     (case recovery_handler (recovery_strategy r) of
        None \<Rightarrow>
          (eng, r,
           empty_result
             \<lparr>rr_success := False,
              rr_error := Some (''No recovery action defined for ''
                                 @ strategy_value (recovery_strategy r)),
              rr_execution_time := 0\<rparr>)
      | Some handler \<Rightarrow>
          (case handler eng now r of
             Inl recovery_error \<Rightarrow>
               (eng, r,
                empty_result
                  \<lparr>rr_success := False,
                   rr_error := Some (''Recovery execution failed: '' @ str_error recovery_error),
                   rr_execution_time := later - now\<rparr>)
           | Inr (eng1, result) \<Rightarrow>
               let execution_time = later - now;
                   r1 = (if rr_success result then
                           r\<lparr>recovery_success := True, resolution_time := Some later\<rparr>
                         else r);
                   r2 = r1\<lparr>recovery_attempts := recovery_attempts r1 + 1\<rparr>;
                   entry =
                     \<lparr>rh_error_id = error_id r2,
                      rh_strategy = strategy_value (recovery_strategy r2),
                      rh_success = rr_success result,
                      rh_execution_time = execution_time,
                      rh_timestamp = later\<rparr>
               in (eng1\<lparr>recovery_history := deque_append 1000 (recovery_history eng1) entry\<rparr>,
                   r2, result\<lparr>rr_execution_time := execution_time\<rparr>)))"

record handle_error_result =
  he_error_id :: string
  he_severity :: string
  he_category :: string
  he_recovery_strategy :: string
  he_recovery_success :: bool
  he_recovery_time :: timedelta
  he_next_steps :: "string list"

text \<open>
  The record object created by \<open>handle_error\<close> is the one held by the registry (under its
  id) and by the list of its pattern (as last element); \<open>store_record\<close> writes the record
  as it is at the end of the call to both places.
\<close>
definition store_record :: "error_engine \<Rightarrow> error_record \<Rightarrow> error_engine" where
  "store_record eng r =
     (let pattern_key = error_type r @ ''_'' @ category_value (category r)
      in eng\<lparr>error_registry := AList.update (error_id r) r (error_registry eng),
              error_patterns :=
                (error_patterns eng)(pattern_key \<mapsto>
                   butlast (dict_get (error_patterns eng) pattern_key []) @ [r])\<rparr>)"

text \<open>
  \<open>handle_error\<close>: create and register the record, analyse the pattern, determine the
  strategy and assign it to the record, execute the recovery, and return the summary.
\<close>
definition handle_error ::
  "error_engine \<Rightarrow> (string \<Rightarrow> int) \<Rightarrow> datetime \<Rightarrow> datetime \<Rightarrow> py_exception \<Rightarrow> error_context \<Rightarrow>
   handle_error_result \<times> error_engine" where
  "handle_error eng hash_str now later e ctx =
     (let r0 = create_error_record hash_str now e ctx;
          eng0 = eng\<lparr>error_registry := AList.update (error_id r0) r0 (error_registry eng)\<rparr>;
          (eng1, r1) = analyze_error_patterns eng0 now r0;
          strategy = determine_recovery_strategy r1;
          r2 = r1\<lparr>recovery_strategy := strategy\<rparr>;
          (eng2, r3, recovery_result) = execute_recovery eng1 now later r2
      in (\<lparr>he_error_id = error_id r3,
           he_severity = severity_value (severity r3),
           he_category = category_value (category r3),
           he_recovery_strategy = strategy_value strategy,
           he_recovery_success = rr_success recovery_result,
           he_recovery_time = rr_execution_time recovery_result,
           he_next_steps = rr_next_steps recovery_result\<rparr>,
          store_record eng2 r3))"

text \<open>\<open>_get_circuit_breaker_status\<close>: state, failure count and last failure of every breaker.\<close>
definition get_circuit_breaker_status ::
  "error_engine \<Rightarrow> (string \<times> string \<times> nat \<times> datetime option) list" where
  "get_circuit_breaker_status eng =
     map (\<lambda>(comp_name, breaker). (comp_name, state breaker, failure_count breaker, last_failure breaker))
       (circuit_breakers eng)"

definition reset_circuit_breaker :: "error_engine \<Rightarrow> string \<Rightarrow> error_engine \<times> bool" where
  "reset_circuit_breaker eng comp_name =
     (case map_of (circuit_breakers eng) comp_name of
        Some b \<Rightarrow>
          (eng\<lparr>circuit_breakers :=
                 AList.update comp_name
                   (b\<lparr>state := ''closed'', failure_count := 0, last_failure := None\<rparr>)
                   (circuit_breakers eng)\<rparr>,
           True)
      | None \<Rightarrow> (eng, False))"

text \<open>
  The engines an operator can meet: the fresh engine, and any engine after an error was
  handled or a breaker reset.
\<close>
inductive reachable :: "error_engine \<Rightarrow> bool" where
  reachable_init: "reachable error_engine_init"
| reachable_handle_error:
    "reachable eng \<Longrightarrow> reachable (snd (handle_error eng hash_str now later e ctx))"
| reachable_reset:
    "reachable eng \<Longrightarrow> reachable (fst (reset_circuit_breaker eng comp_name))"

text \<open>
  The value \<open>_handle_circuit_breaker\<close> stores for a component, from the breaker stored
  before (\<open>None\<close> when the component has none): used to state what the handler does to
  the table of breakers.
\<close>
definition after_failure :: "datetime \<Rightarrow> circuit_breaker option \<Rightarrow> circuit_breaker" where
  "after_failure now old =
     (let cb0 = (case old of
                   None \<Rightarrow>
                     \<lparr>state = ''closed'', failure_count = 0, failure_threshold = 5,
                      timeout = 5 * minute, last_failure = None\<rparr>
                 | Some b \<Rightarrow> b);
          cb1 = cb0\<lparr>failure_count := failure_count cb0 + 1, last_failure := Some now\<rparr>
      in if failure_count cb1 \<ge> failure_threshold cb1 then cb1\<lparr>state := ''open''\<rparr> else cb1)"

text \<open>
  A breaker is consistent when it is open or closed, open exactly when its failure count
  has reached its threshold, and has the threshold and time-out every breaker is created
  with.
\<close>
definition breaker_consistent :: "circuit_breaker \<Rightarrow> bool" where
  "breaker_consistent b =
     ((state b = ''open'' \<or> state b = ''closed'')
      \<and> (state b = ''open'') = (failure_count b \<ge> failure_threshold b)
      \<and> failure_threshold b = 5 \<and> timeout b = 5 * minute)"

section \<open>Step and pattern execution (thinking.py)\<close>

datatype thinking_stage =
  ANALYSIS | PLANNING | SEGMENTATION | OPTIMIZATION | EXECUTION | MONITORING | EVALUATION
  | ADAPTATION

datatype priority = PRIORITY_CRITICAL | PRIORITY_HIGH | PRIORITY_MEDIUM | PRIORITY_LOW

datatype thinking_status = PENDING | IN_PROGRESS | COMPLETED | FAILED | OPTIMIZING | ADAPTING

text \<open>
  The step logic returns fixed dictionaries; the model names each of them by its top-level
  key.
\<close>
datatype step_result =
  Segments_and_insights | Patterns | Analysis_complete
  | Strategy | Sequences_and_timing | Planning_complete
  | Segments_created
  | Optimized_schedule | Personalized_content | Optimization_complete
  | Campaign_launched | Current_performance | Roi_analysis | Adaptations

text \<open>
  The \<open>stage\<close> field of a step is annotated \<open>ThinkingStage\<close>, which the dataclass does
  not check: it holds a member of the enum or some other value, kept as its text
  \<open>str(value)\<close>.
\<close>
datatype stage_value = Stage thinking_stage | Other_value string

text \<open>A \<open>ThinkingStep\<close>; the free-form metadata is left out.\<close>
record thinking_step =
  ts_id :: string
  stage :: stage_value
  ts_description :: string
  inputs :: "string list"
  outputs :: "string list"
  dependencies :: "string list"
  ts_priority :: priority
  estimated_duration :: timedelta
  actual_duration :: "timedelta option"
  status :: thinking_status
  ts_result :: "step_result option"
  errors :: "string list"
  ts_timestamp :: datetime

text \<open>
  The constructor call \<open>ThinkingStep(id=..., ...)\<close> with the defaults of the dataclass
  for the fields that are not given: status \<open>PENDING\<close>, no result, no errors.
\<close>
definition new_step ::
  "datetime \<Rightarrow> string \<Rightarrow> thinking_stage \<Rightarrow> string \<Rightarrow> string list \<Rightarrow> string list \<Rightarrow> string list \<Rightarrow>
   priority \<Rightarrow> timedelta \<Rightarrow> thinking_step" where
  "new_step now i st descr ins outs deps prio duration =
     \<lparr>ts_id = i, stage = Stage st, ts_description = descr, inputs = ins, outputs = outs,
      dependencies = deps, ts_priority = prio, estimated_duration = duration,
      actual_duration = None, status = PENDING, ts_result = None, errors = [],
      ts_timestamp = now\<rparr>"

text \<open>\<open>_generate_campaign_steps\<close>: the eleven steps of a campaign pattern.\<close>
definition generate_campaign_steps :: "datetime \<Rightarrow> thinking_step list" where
  "generate_campaign_steps now =
     [new_step now ''analyze_audience_data'' ANALYSIS
        ''Analyze Google Sheets data and segment audience''
        [''google_sheets_data'', ''historical_campaign_data'']
        [''audience_segments'', ''demographic_insights'']
        [] PRIORITY_CRITICAL (10 * minute),
      new_step now ''analyze_historical_performance'' ANALYSIS
        ''Analyze historical campaign performance patterns''
        [''historical_campaign_data'', ''conversion_data'']
        [''performance_patterns'', ''success_factors'']
        [''analyze_audience_data''] PRIORITY_HIGH (15 * minute),
      new_step now ''plan_segmentation_strategy'' PLANNING
        ''Plan optimal audience segmentation strategy''
        [''audience_segments'', ''performance_patterns'']
        [''segmentation_plan'', ''targeting_criteria'']
        [''analyze_audience_data'', ''analyze_historical_performance''] PRIORITY_CRITICAL (20 * minute),
      new_step now ''plan_message_sequences'' PLANNING
        ''Plan message sequences and timing optimization''
        [''segmentation_plan'', ''audience_behavior_data'']
        [''message_sequences'', ''timing_strategy'']
        [''plan_segmentation_strategy''] PRIORITY_HIGH (30 * minute),
      new_step now ''execute_smart_segmentation'' SEGMENTATION
        ''Execute intelligent audience segmentation''
        [''segmentation_plan'', ''audience_data'']
        [''segmented_audiences'', ''segment_priorities'']
        [''plan_segmentation_strategy''] PRIORITY_CRITICAL (15 * minute),
      new_step now ''optimize_message_timing'' OPTIMIZATION
        ''Optimize message timing based on audience behavior''
        [''timing_strategy'', ''audience_behavior_patterns'']
        [''optimized_schedule'', ''send_times'']
        [''plan_message_sequences'', ''execute_smart_segmentation''] PRIORITY_HIGH (25 * minute),
      new_step now ''optimize_message_content'' OPTIMIZATION
        ''Optimize message content for each segment''
        [''message_sequences'', ''segment_preferences'']
        [''personalized_messages'', ''content_variants'']
        [''execute_smart_segmentation''] PRIORITY_HIGH (20 * minute),
      new_step now ''execute_campaign_launch'' EXECUTION
        ''Execute coordinated campaign launch''
        [''optimized_schedule'', ''personalized_messages'', ''segmented_audiences'']
        [''campaign_status'', ''initial_metrics'']
        [''optimize_message_timing'', ''optimize_message_content''] PRIORITY_CRITICAL (1 * hour),
      new_step now ''monitor_real_time_performance'' MONITORING
        ''Monitor real-time campaign performance''
        [''campaign_status'', ''live_metrics'']
        [''performance_alerts'', ''optimization_recommendations'']
        [''execute_campaign_launch''] PRIORITY_CRITICAL (24 * hour),
      new_step now ''evaluate_roi_performance'' EVALUATION
        ''Evaluate ROI and conversion performance''
        [''performance_metrics'', ''conversion_data'']
        [''roi_analysis'', ''performance_report'']
        [''monitor_real_time_performance''] PRIORITY_HIGH (30 * minute),
      new_step now ''adapt_strategy_realtime'' ADAPTATION
        ''Adapt strategy based on real-time performance''
        [''performance_alerts'', ''optimization_recommendations'']
        [''strategy_adjustments'', ''updated_parameters'']
        [''evaluate_roi_performance''] PRIORITY_HIGH (15 * minute)]"

text \<open>
  \<open>_execute_step_logic\<close> with the eight stage handlers, and the final
  \<open>raise ValueError\<close> for a stage that is none of the eight members. The handlers wait
  (\<open>asyncio.sleep\<close>) and return their dictionary.
\<close>
definition execute_step_logic :: "thinking_step \<Rightarrow> py_error + step_result" where
  "execute_step_logic step =
     (case stage step of
        Stage ANALYSIS \<Rightarrow>
          if str_contains ''audience_data'' (ts_id step) then Inr Segments_and_insights
          else if str_contains ''historical_performance'' (ts_id step) then Inr Patterns
          else Inr Analysis_complete
      | Stage PLANNING \<Rightarrow>
          if str_contains ''segmentation_strategy'' (ts_id step) then Inr Strategy
          else if str_contains ''message_sequences'' (ts_id step) then Inr Sequences_and_timing
          else Inr Planning_complete
      | Stage SEGMENTATION \<Rightarrow> Inr Segments_created
      | Stage OPTIMIZATION \<Rightarrow>
          if str_contains ''timing'' (ts_id step) then Inr Optimized_schedule
          else if str_contains ''content'' (ts_id step) then Inr Personalized_content
          else Inr Optimization_complete
      | Stage EXECUTION \<Rightarrow> Inr Campaign_launched
      | Stage MONITORING \<Rightarrow> Inr Current_performance
      | Stage EVALUATION \<Rightarrow> Inr Roi_analysis
      | Stage ADAPTATION \<Rightarrow> Inr Adaptations
      | Other_value v \<Rightarrow> Inl (ValueError (''Unknown thinking stage: '' @ v)))"

record step_report =
  sr_success :: bool
  sr_step_id :: string
  sr_result :: "step_result option"
  sr_error :: "string option"
  sr_duration :: timedelta

text \<open>
  \<open>process_thinking_step\<close>, with the clock at entry and at the end. The step object is
  written twice: at entry, before the step logic is awaited, and when the logic has
  returned or raised an \<open>Exception\<close>. The model returns both values of the step, in that
  order, and the returned dictionary. The pattern id only reaches the log. Cancellation
  of the task while the step logic waits is not modelled.
\<close>
definition process_thinking_step ::
  "datetime \<Rightarrow> datetime \<Rightarrow> string \<Rightarrow> thinking_step \<Rightarrow> thinking_step \<times> thinking_step \<times> step_report" where
  "process_thinking_step start_time end_time pattern_id step =
     (let step1 = step\<lparr>status := IN_PROGRESS\<rparr>
      in case execute_step_logic step1 of
           Inr res \<Rightarrow>
             let step2 = step1\<lparr>status := COMPLETED, ts_result := Some res,
                               actual_duration := Some (end_time - start_time)\<rparr>
             in (step1, step2,
                 \<lparr>sr_success = True, sr_step_id = ts_id step2, sr_result = Some res,
                  sr_error = None, sr_duration = end_time - start_time\<rparr>)
         | Inl e \<Rightarrow>
             let step2 = step1\<lparr>status := FAILED, errors := errors step1 @ [str_error e],
                               actual_duration := Some (end_time - start_time)\<rparr>
             in (step1, step2,
                 \<lparr>sr_success = False, sr_step_id = ts_id step2, sr_result = None,
                  sr_error = Some (str_error e), sr_duration = end_time - start_time\<rparr>))"

text \<open>
  The dependency requirement of the specification, for a step of a pattern: every id in
  the step's \<open>dependencies\<close> is the id of a step of the pattern whose status is
  \<open>COMPLETED\<close>. No function of the engine computes it.
\<close>
definition dependencies_completed :: "thinking_step list \<Rightarrow> thinking_step \<Rightarrow> bool" where
  "dependencies_completed steps s =
     list_all (\<lambda>d. list_ex (\<lambda>t. ts_id t = d \<and> status t = COMPLETED) steps) (dependencies s)"

section \<open>Concrete inputs\<close>

text \<open>
  Ledgers, monitors and engines used as explicit inputs by the theorems below.
\<close>

text \<open>Ten refunds of 50 for campaign \<open>c1\<close>, all recorded at time 0.\<close>
definition refund_ledger :: roi_tracker where
  "refund_ledger =
     \<lparr>investment_tracking = Map.empty,
      revenue_tracking = [''c1'' \<mapsto> replicate 10 (- 50)],
      conversion_tracking =
        [''c1'' \<mapsto> replicate 10
           \<lparr>cv_student_id = ''s1'', cv_revenue = - 50, cv_conversion_type = ''refund'',
            cv_timestamp = 0, cv_campaign_id = ''c1''\<rparr>]\<rparr>"

text \<open>An investment of 500 and ten conversions of 100 for campaign \<open>c1\<close>, all at time 0.\<close>
definition steady_ledger :: roi_tracker where
  "steady_ledger =
     \<lparr>investment_tracking = [''c1'' \<mapsto> [500]],
      revenue_tracking = [''c1'' \<mapsto> replicate 10 100],
      conversion_tracking =
        [''c1'' \<mapsto> replicate 10
           \<lparr>cv_student_id = ''s1'', cv_revenue = 100, cv_conversion_type = ''reactivation'',
            cv_timestamp = 0, cv_campaign_id = ''c1''\<rparr>]\<rparr>"

text \<open>An error record of the given severity and category, as \<open>_create_error_record\<close> builds them.\<close>
definition sample_record :: "error_severity \<Rightarrow> error_category \<Rightarrow> error_record" where
  "sample_record sev cat =
     \<lparr>error_id = ''err_0_0'', error_type = ''CampaignError'', error_message = ''send failed'',
      severity = sev, category = cat,
      er_context =
        \<lparr>ctx_error_id = [], ctx_timestamp = 0, ctx_campaign_id = None, workflow_id = None,
         step_id = None, component = Some ''waha-send'', operation = Some ''send'',
         user_data = []\<rparr>,
      recovery_strategy = RETRY, recovery_attempts = 0, max_recovery_attempts = 3,
      recovery_success = False, resolution_time = None\<rparr>"

text \<open>
  The end-to-end scenario: one investment of 5000 and twelve conversions of 1250 (15000 in
  all) for campaign \<open>camp1\<close>, and an engine on that ledger with a fresh monitor.
\<close>
definition scenario_ledger :: roi_tracker where
  "scenario_ledger =
     fold (\<lambda>revenue t. track_conversion t 0 ''camp1'' ''student'' revenue ''reactivation'')
       (replicate 12 1250)
       (track_investment roi_tracker_init ''camp1'' 5000 ''operational'')"

definition scenario_engine :: optimization_engine where
  "scenario_engine =
     \<lparr>roi_tracker = scenario_ledger, performance_monitor = performance_monitor_init,
      optimization_history = []\<rparr>"

text \<open>
  Two consecutive rounds of the monitoring loop, 30 seconds apart, each with the response
  rate 0.01 (below the critical low threshold 0.05) for campaign \<open>camp1\<close>.
\<close>
definition first_breach :: performance_monitor where
  "first_breach =
     check_alert_conditions performance_monitor_init (1000 * second) ''camp1''
       [(RESPONSE_RATE, 0.01)]"

definition second_breach :: performance_monitor where
  "second_breach =
     check_alert_conditions first_breach (1030 * second) ''camp1'' [(RESPONSE_RATE, 0.01)]"

text \<open>
  Errors reported for the component \<open>waha-send\<close> of campaign \<open>camp1\<close>, one per minute,
  handled with a constant string hash: a \<open>CampaignError\<close> as the server builds it from an
  error description, and a \<open>ConnectionError\<close>. \<open>tripped_engine\<close> is the engine after five
  rate-limit errors.
\<close>
definition fixed_hash :: "string \<Rightarrow> int" where
  "fixed_hash s = 4242"

definition send_context :: "datetime \<Rightarrow> error_context" where
  "send_context t =
     \<lparr>ctx_error_id = [], ctx_timestamp = t, ctx_campaign_id = Some ''camp1'',
      workflow_id = None, step_id = None, component = Some ''waha-send'',
      operation = Some ''send_message'', user_data = []\<rparr>"

definition campaign_error :: "string \<Rightarrow> py_exception" where
  "campaign_error msg =
     \<lparr>exc_type = ''CampaignError'',
      exc_classes = [''CampaignError'', ''Exception'', ''BaseException'', ''object''],
      exc_message = msg\<rparr>"

definition connection_error :: py_exception where
  "connection_error =
     \<lparr>exc_type = ''ConnectionError'',
      exc_classes = [''ConnectionError'', ''OSError'', ''Exception'', ''BaseException'', ''object''],
      exc_message = ''connection refused''\<rparr>"

definition handle_errors :: "error_engine \<Rightarrow> py_exception \<Rightarrow> datetime list \<Rightarrow> error_engine" where
  "handle_errors eng e ts =
     fold (\<lambda>t eng'. snd (handle_error eng' fixed_hash t (t + second) e (send_context t))) ts eng"

definition five_minutes :: "datetime list" where
  "five_minutes = [0, minute, 2 * minute, 3 * minute, 4 * minute]"

definition tripped_engine :: error_engine where
  "tripped_engine =
     handle_errors error_engine_init (campaign_error ''429 rate limit exceeded'') five_minutes"

section \<open>Properties of the ROI ledger\<close>

lemma calculate_roi_breakdown_returns:
  "\<exists>b. calculate_roi_breakdown t campaign_id = Inr b"
  by (simp add: calculate_roi_breakdown_def bind_result_def py_truediv_def Let_def
        split: prod.splits)

lemma generate_roi_projections_returns:
  "\<exists>p. generate_roi_projections t now campaign_id = Inr p"
proof (cases "length (dict_get (conversion_tracking t) campaign_id []) < 10")
  case True
  then show ?thesis by (simp add: generate_roi_projections_def Let_def)
next
  case False
  then have "min (length (dict_get (conversion_tracking t) campaign_id [])) 100 \<noteq> 0"
    by auto
  moreover have "max (days (now - cv_timestamp (hd (dict_get (conversion_tracking t) campaign_id [])))) 1 \<noteq> 0"
    by simp
  ultimately show ?thesis
    using False
    by (simp add: generate_roi_projections_def bind_result_def py_truediv_def Let_def)
qed


lemma calculate_real_time_roi_returns:
  "\<exists>r. calculate_real_time_roi t now campaign_id = Inr r
       \<and> rc_campaign_id r = campaign_id
       \<and> total_investment r = sum_list (dict_get (investment_tracking t) campaign_id [])
       \<and> total_revenue r = sum_list (dict_get (revenue_tracking t) campaign_id [])
       \<and> net_profit r = total_revenue r - total_investment r
       \<and> roi_percentage r =
           (if total_investment r > 0
            then (total_revenue r - total_investment r) / total_investment r * 100 else 0)
       \<and> roi_ratio r =
           (if total_investment r > 0 then total_revenue r / total_investment r else 0)"
proof -
  obtain b where b: "calculate_roi_breakdown t campaign_id = Inr b"
    using calculate_roi_breakdown_returns by blast
  obtain p where p: "generate_roi_projections t now campaign_id = Inr p"
    using generate_roi_projections_returns by blast
  show ?thesis
    by (simp add: calculate_real_time_roi_def bind_result_def py_truediv_def Let_def b p)
qed

text \<open>
  C6. \<open>CalculateROI\<close> is a function of the cumulative investment and revenue lists of the
  campaign: for every ledger, clock reading and campaign \<open>calculate_real_time_roi\<close> returns,
  with the total investment and the total revenue the sums of the two lists,
  \<open>net_profit = revenue - investment\<close> and
  \<open>roi_percentage = (revenue - investment) / investment * 100\<close> (0 when the investment is
  not positive); when the investment list is [100, 50] and the revenue list is [300] this
  is \<open>roi_percentage = (300 - 150) / 150 * 100 = 100\<close> and \<open>net_profit = 150\<close>; and any
  other ledger and clock with the same two lists for the campaign give the same ROI
  percentage and net profit.
\<close>
theorem calculate_real_time_roi_example:
  "\<exists>r. calculate_real_time_roi t now campaign_id = Inr r
       \<and> total_investment r = sum_list (dict_get (investment_tracking t) campaign_id [])
       \<and> total_revenue r = sum_list (dict_get (revenue_tracking t) campaign_id [])
       \<and> net_profit r = total_revenue r - total_investment r
       \<and> roi_percentage r =
           (if total_investment r > 0
            then (total_revenue r - total_investment r) / total_investment r * 100 else 0)
       \<and> (investment_tracking t campaign_id = Some [100, 50]
            \<and> revenue_tracking t campaign_id = Some [300] \<longrightarrow>
          total_investment r = 150 \<and> total_revenue r = 300
          \<and> roi_percentage r = (300 - 150) / 150 * 100
          \<and> roi_percentage r = 100 \<and> net_profit r = 150)
       \<and> (\<forall>t' now'.
            dict_get (investment_tracking t') campaign_id []
              = dict_get (investment_tracking t) campaign_id []
            \<and> dict_get (revenue_tracking t') campaign_id []
              = dict_get (revenue_tracking t) campaign_id [] \<longrightarrow>
            (\<exists>r'. calculate_real_time_roi t' now' campaign_id = Inr r'
                 \<and> roi_percentage r' = roi_percentage r \<and> net_profit r' = net_profit r))"
proof -
  obtain r where r: "calculate_real_time_roi t now campaign_id = Inr r"
    and ri: "total_investment r = sum_list (dict_get (investment_tracking t) campaign_id [])"
    and rr: "total_revenue r = sum_list (dict_get (revenue_tracking t) campaign_id [])"
    and rn: "net_profit r = total_revenue r - total_investment r"
    and rp: "roi_percentage r =
           (if total_investment r > 0
            then (total_revenue r - total_investment r) / total_investment r * 100 else 0)"
    using calculate_real_time_roi_returns [of t now campaign_id] by blast
  have inst: "total_investment r = 150 \<and> total_revenue r = 300
          \<and> roi_percentage r = (300 - 150) / 150 * 100
          \<and> roi_percentage r = 100 \<and> net_profit r = 150"
    if "investment_tracking t campaign_id = Some [100, 50]"
      and "revenue_tracking t campaign_id = Some [300]"
  proof -
    from that ri rr have "total_investment r = 150" and "total_revenue r = 300"
      by (simp_all add: dict_get_def)
    with rp rn show ?thesis by simp
  qed
  have pure: "\<exists>r'. calculate_real_time_roi t' now' campaign_id = Inr r'
                 \<and> roi_percentage r' = roi_percentage r \<and> net_profit r' = net_profit r"
    if "dict_get (investment_tracking t') campaign_id []
              = dict_get (investment_tracking t) campaign_id []"
      and "dict_get (revenue_tracking t') campaign_id []
              = dict_get (revenue_tracking t) campaign_id []"
    for t' now'
  proof -
    obtain r' where r': "calculate_real_time_roi t' now' campaign_id = Inr r'"
      and ri': "total_investment r' = sum_list (dict_get (investment_tracking t') campaign_id [])"
      and rr': "total_revenue r' = sum_list (dict_get (revenue_tracking t') campaign_id [])"
      and rn': "net_profit r' = total_revenue r' - total_investment r'"
      and rp': "roi_percentage r' =
           (if total_investment r' > 0
            then (total_revenue r' - total_investment r') / total_investment r' * 100 else 0)"
      using calculate_real_time_roi_returns [of t' now' campaign_id] by blast
    from that ri rr ri' rr' have e: "total_investment r' = total_investment r"
      "total_revenue r' = total_revenue r" by simp_all
    from r' rp rp' rn rn' e show ?thesis by simp
  qed
  from r ri rr rn rp inst pure show ?thesis by blast
qed

theorem calculate_real_time_roi_example_witness:
  "\<exists>r. calculate_real_time_roi
          (track_conversion
             (track_investment (track_investment roi_tracker_init ''c1'' 100 ''operational'')
                ''c1'' 50 ''operational'')
             0 ''c1'' ''s1'' 300 ''reactivation'')
          0 ''c1'' = Inr r
       \<and> total_investment r = 150 \<and> total_revenue r = 300
       \<and> roi_percentage r = (300 - 150) / 150 * 100
       \<and> roi_percentage r = 100 \<and> net_profit r = 150
       \<and> (\<exists>r'. calculate_real_time_roi
                  (track_investment
                     (track_conversion
                        (track_investment
                           (track_investment roi_tracker_init ''c1'' 100 ''operational'')
                           ''c1'' 50 ''operational'')
                        (3 * day) ''c1'' ''s2'' 300 ''upgrade'')
                     ''c2'' 999 ''operational'')
                  (5 * day) ''c1'' = Inr r'
             \<and> roi_percentage r' = roi_percentage r \<and> net_profit r' = net_profit r)"
proof -
  let ?A = "track_conversion
             (track_investment (track_investment roi_tracker_init ''c1'' 100 ''operational'')
                ''c1'' 50 ''operational'')
             0 ''c1'' ''s1'' 300 ''reactivation''"
  let ?B = "track_investment
              (track_conversion
                 (track_investment
                    (track_investment roi_tracker_init ''c1'' 100 ''operational'')
                    ''c1'' 50 ''operational'')
                 (3 * day) ''c1'' ''s2'' 300 ''upgrade'')
              ''c2'' 999 ''operational''"
  have a: "investment_tracking ?A ''c1'' = Some [100, 50]
             \<and> revenue_tracking ?A ''c1'' = Some [300]"
    by (simp add: track_conversion_def track_investment_def roi_tracker_init_def dict_get_def)
  have b: "dict_get (investment_tracking ?B) ''c1'' [] = dict_get (investment_tracking ?A) ''c1'' []
             \<and> dict_get (revenue_tracking ?B) ''c1'' [] = dict_get (revenue_tracking ?A) ''c1'' []"
    by (simp add: track_conversion_def track_investment_def roi_tracker_init_def dict_get_def)
  obtain r where r: "calculate_real_time_roi ?A 0 ''c1'' = Inr r"
    and i: "investment_tracking ?A ''c1'' = Some [100, 50]
              \<and> revenue_tracking ?A ''c1'' = Some [300] \<longrightarrow>
            total_investment r = 150 \<and> total_revenue r = 300
            \<and> roi_percentage r = (300 - 150) / 150 * 100
            \<and> roi_percentage r = 100 \<and> net_profit r = 150"
    and p: "\<forall>t' now'.
            dict_get (investment_tracking t') ''c1'' [] = dict_get (investment_tracking ?A) ''c1'' []
            \<and> dict_get (revenue_tracking t') ''c1'' [] = dict_get (revenue_tracking ?A) ''c1'' [] \<longrightarrow>
            (\<exists>r'. calculate_real_time_roi t' now' ''c1'' = Inr r'
                 \<and> roi_percentage r' = roi_percentage r \<and> net_profit r' = net_profit r)"
    using calculate_real_time_roi_example [of ?A 0 "''c1''"] by blast
  from i a have v: "total_investment r = 150 \<and> total_revenue r = 300
            \<and> roi_percentage r = (300 - 150) / 150 * 100
            \<and> roi_percentage r = 100 \<and> net_profit r = 150"
    by blast
  from p b have "\<exists>r'. calculate_real_time_roi ?B (5 * day) ''c1'' = Inr r'
                 \<and> roi_percentage r' = roi_percentage r \<and> net_profit r' = net_profit r"
    by blast
  with r v show ?thesis by blast
qed

text \<open>
  C10. With an empty investment list (total investment 0) \<open>calculate_real_time_roi\<close>
  raises nothing, in particular no \<open>ZeroDivisionError\<close>: it returns a calculation with
  \<open>roi_percentage = 0\<close>, \<open>roi_ratio = 0\<close> and \<open>net_profit\<close> equal to the total revenue.
  A campaign with no entry in the ledger reads as the empty list.
\<close>
theorem calculate_real_time_roi_zero_investment:
  assumes "dict_get (investment_tracking t) campaign_id [] = []"
  shows "\<exists>r. calculate_real_time_roi t now campaign_id = Inr r
           \<and> total_investment r = 0
           \<and> roi_percentage r = 0 \<and> roi_ratio r = 0
           \<and> total_revenue r = sum_list (dict_get (revenue_tracking t) campaign_id [])
           \<and> net_profit r = total_revenue r"
proof -
  obtain b where b: "calculate_roi_breakdown t campaign_id = Inr b"
    using calculate_roi_breakdown_returns by blast
  obtain p where p: "generate_roi_projections t now campaign_id = Inr p"
    using generate_roi_projections_returns by blast
  show ?thesis
    using assms
    by (simp add: calculate_real_time_roi_def bind_result_def Let_def b p)
qed

theorem calculate_real_time_roi_zero_investment_witness:
  "\<exists>r. calculate_real_time_roi
          (track_conversion roi_tracker_init 0 ''c1'' ''s1'' 120 ''reactivation'') 0 ''c1'' = Inr r
       \<and> total_investment r = 0
       \<and> roi_percentage r = 0 \<and> roi_ratio r = 0
       \<and> total_revenue r = 120
       \<and> net_profit r = total_revenue r"
  using calculate_real_time_roi_zero_investment
    [of "track_conversion roi_tracker_init 0 ''c1'' ''s1'' 120 ''reactivation''" "''c1''" 0]
  by (simp add: track_conversion_def roi_tracker_init_def dict_get_def)

lemma np_mean_replicate: "0 < n \<Longrightarrow> np_mean (replicate n x) = x"
  by (simp add: np_mean_def sum_list_replicate)

lemma np_std_replicate: "0 < n \<Longrightarrow> np_std (replicate n x) = 0"
  by (simp add: np_std_def np_mean_replicate map_replicate)

text \<open>
  C8, as the code has it. With fewer than 10 recorded conversions the projection is
  \<open>projected_final_roi = 0\<close>, \<open>confidence_level = 0\<close>, \<open>projected_total_revenue = 0\<close>. With
  at least 10, the confidence level is \<open>max(0, 1 - stddev/mean)\<close> over the last (up to) 20
  conversion revenues when that mean is positive and 0 otherwise; the daily revenue is
  the revenue of the last 10 conversions divided by the days elapsed since the first
  conversion (at least 1), and it is extrapolated over the days that remain of 21.
\<close>
theorem generate_roi_projections_spec:
  "(let conversions = dict_get (conversion_tracking t) campaign_id [];
        revenue_values = map cv_revenue (last_n 20 conversions);
        recent_revenue = sum_list (map cv_revenue (last_n 10 conversions));
        days_elapsed = days (now - cv_timestamp (hd conversions));
        days_remaining = max (21 - days_elapsed) 0;
        daily_revenue = recent_revenue / real_of_int (max days_elapsed 1);
        projected_total = sum_list (dict_get (revenue_tracking t) campaign_id [])
                            + daily_revenue * real_of_int days_remaining;
        investment = sum_list (dict_get (investment_tracking t) campaign_id [])
    in (length conversions < 10 \<longrightarrow>
          (\<exists>p. generate_roi_projections t now campaign_id = Inr p
             \<and> map_of p ''projected_final_roi'' = Some 0
             \<and> map_of p ''confidence_level'' = Some 0
             \<and> map_of p ''projected_total_revenue'' = Some 0))
     \<and> (length conversions \<ge> 10 \<longrightarrow>
          (\<exists>p. generate_roi_projections t now campaign_id = Inr p
             \<and> map_of p ''confidence_level'' =
                 Some (if np_mean revenue_values > 0
                       then max 0 (1 - np_std revenue_values / np_mean revenue_values) else 0)
             \<and> map_of p ''daily_revenue_trend'' = Some daily_revenue
             \<and> map_of p ''time_to_target'' = Some (real_of_int days_remaining)
             \<and> map_of p ''projected_total_revenue'' = Some projected_total
             \<and> map_of p ''projected_final_roi'' =
                 Some (if investment > 0 then (projected_total - investment) / investment * 100
                       else 0))))"
proof -
  let ?cs = "dict_get (conversion_tracking t) campaign_id []"
  have short: "length ?cs < 10 \<Longrightarrow> ?thesis"
    by (simp add: generate_roi_projections_def Let_def)
  have long: "?thesis" if "\<not> length ?cs < 10"
  proof -
    from that have ne: "?cs \<noteq> []" and l20: "length (last_n 20 ?cs) > 1"
      and m: "min (length ?cs) 100 \<noteq> 0"
      by (auto simp: last_n_def)
    from l20 have ne20: "last_n 20 ?cs \<noteq> []" by auto
    show ?thesis
      using that ne l20 m ne20
      by (simp add: generate_roi_projections_def bind_result_def py_truediv_def Let_def)
  qed
  show ?thesis using short long by blast
qed


theorem generate_roi_projections_spec_witness:
  "(length (dict_get (conversion_tracking roi_tracker_init) ''c1'' []) < 10
    \<and> (\<exists>p. generate_roi_projections roi_tracker_init 0 ''c1'' = Inr p
          \<and> map_of p ''projected_final_roi'' = Some 0
          \<and> map_of p ''confidence_level'' = Some 0
          \<and> map_of p ''projected_total_revenue'' = Some 0))
   \<and> (length (dict_get (conversion_tracking steady_ledger) ''c1'' []) \<ge> 10
    \<and> (\<exists>p. generate_roi_projections steady_ledger (3 * day) ''c1'' = Inr p
          \<and> map_of p ''confidence_level'' = Some 1
          \<and> map_of p ''daily_revenue_trend'' = Some (1000 / 3)
          \<and> map_of p ''time_to_target'' = Some 18
          \<and> map_of p ''projected_total_revenue'' = Some 7000
          \<and> map_of p ''projected_final_roi'' = Some 1300))"
proof -
  have a: "length (dict_get (conversion_tracking roi_tracker_init) ''c1'' []) < 10"
    by (simp add: roi_tracker_init_def dict_get_def)
  have b: "length (dict_get (conversion_tracking steady_ledger) ''c1'' []) \<ge> 10"
    by (simp add: steady_ledger_def dict_get_def)
  have d: "days (3 * day) = 3"
    by (simp add: days_def day_def hour_def minute_def second_def)
  show ?thesis
    using generate_roi_projections_spec [of roi_tracker_init "''c1''" 0]
      generate_roi_projections_spec [of steady_ledger "''c1''" "3 * day"] a b
    by (simp add: Let_def steady_ledger_def dict_get_def last_n_def np_std_replicate
          np_mean_replicate sum_list_replicate d)
qed


text \<open>
  C8 as stated fails where the mean of the revenues is not positive: for ten conversions of
  \<open>-50\<close> the formula \<open>max(0, 1 - stddev/mean)\<close> is 1 and the code returns confidence 0.
\<close>
theorem generate_roi_projections_counterexample:
  "length (dict_get (conversion_tracking refund_ledger) ''c1'' []) = 10
   \<and> map cv_revenue (last_n 20 (dict_get (conversion_tracking refund_ledger) ''c1'' []))
       = replicate 10 (- 50)
   \<and> max 0 (1 - np_std (replicate 10 (- 50)) / np_mean (replicate 10 (- 50))) = 1
   \<and> generate_roi_projections refund_ledger 0 ''c1'' =
       Inr [(''projected_final_roi'', 0), (''confidence_level'', 0),
            (''projected_total_revenue'', - 11000), (''time_to_target'', 21),
            (''daily_revenue_trend'', - 500)]"
  by (simp add: refund_ledger_def dict_get_def last_n_def np_std_replicate np_mean_replicate
        generate_roi_projections_def bind_result_def py_truediv_def Let_def days_def
        sum_list_replicate)

lemma fold_track_conversion:
  "investment_tracking (fold (\<lambda>revenue t. track_conversion t now cid sid revenue ty) revs t)
     = investment_tracking t
   \<and> dict_get (revenue_tracking
        (fold (\<lambda>revenue t. track_conversion t now cid sid revenue ty) revs t)) cid []
     = dict_get (revenue_tracking t) cid [] @ revs
   \<and> length (dict_get (conversion_tracking
        (fold (\<lambda>revenue t. track_conversion t now cid sid revenue ty) revs t)) cid [])
     = length (dict_get (conversion_tracking t) cid []) + length revs"
  by (induction revs arbitrary: t) (simp_all add: track_conversion_def dict_get_def)

lemma scenario_ledger_lists:
  "dict_get (investment_tracking scenario_ledger) ''camp1'' [] = [5000]"
  "sum_list (dict_get (revenue_tracking scenario_ledger) ''camp1'' []) = 15000"
  "length (dict_get (conversion_tracking scenario_ledger) ''camp1'' []) = 12"
proof -
  let ?t = "track_investment roi_tracker_init ''camp1'' 5000 ''operational''"
  have base: "dict_get (investment_tracking ?t) ''camp1'' [] = [5000]"
    "dict_get (revenue_tracking ?t) ''camp1'' [] = []"
    "dict_get (conversion_tracking ?t) ''camp1'' [] = []"
    by (simp_all add: track_investment_def roi_tracker_init_def dict_get_def)
  have inv: "investment_tracking scenario_ledger = investment_tracking ?t"
    unfolding scenario_ledger_def by (simp only: fold_track_conversion)
  have rev: "dict_get (revenue_tracking scenario_ledger) ''camp1'' []
               = dict_get (revenue_tracking ?t) ''camp1'' [] @ replicate 12 1250"
    unfolding scenario_ledger_def by (simp only: fold_track_conversion)
  have cnv: "length (dict_get (conversion_tracking scenario_ledger) ''camp1'' [])
               = length (dict_get (conversion_tracking ?t) ''camp1'' [])
                 + length (replicate 12 (1250::real))"
    unfolding scenario_ledger_def by (simp only: fold_track_conversion)
  show "dict_get (investment_tracking scenario_ledger) ''camp1'' [] = [5000]"
    using base(1) by (simp add: inv dict_get_def)
  show "sum_list (dict_get (revenue_tracking scenario_ledger) ''camp1'' []) = 15000"
    by (simp add: rev base(2) sum_list_replicate)
  show "length (dict_get (conversion_tracking scenario_ledger) ''camp1'' []) = 12"
    by (simp add: cnv base(3))
qed


section \<open>Properties of the alerting\<close>

lemma str_1000: "str_int (int_timestamp (1000 * second)) = ''1000''"
  by (simp add: str_int_def int_timestamp_def second_def str_nat.simps digit_char_def)

lemma str_1030: "str_int (int_timestamp (1030 * second)) = ''1030''"
  by (simp add: str_int_def int_timestamp_def second_def str_nat.simps digit_char_def)

lemma response_thresholds:
  "\<exists>th. alert_thresholds performance_monitor_init RESPONSE_RATE = Some th
        \<and> th ''critical_low'' = Some 0.05"
  by (simp add: performance_monitor_init_def setup_default_thresholds_def)

lemma evaluate_threshold_critical_low:
  assumes "thresholds ''critical_low'' = Some c" and "v < c"
  shows "evaluate_threshold now campaign_id metric_type v thresholds
   = Some \<lparr>al_id = campaign_id @ ''_'' @ metric_value metric_type @ ''_''
                    @ str_int (int_timestamp now),
            al_level = CRITICAL, al_description = Critically_low,
            al_metric_type = metric_type, current_value = v,
            threshold_value = c, al_timestamp = now,
            acknowledged = False, actions_taken = []\<rparr>"
  using assms by (simp add: evaluate_threshold_def below_threshold_def dict_get_def)

lemma check_single_breach:
  assumes "alert_thresholds m RESPONSE_RATE = Some th" and "th ''critical_low'' = Some c"
    and "v < c"
  shows "check_alert_conditions m now campaign_id [(RESPONSE_RATE, v)]
   = handle_alert m
       \<lparr>al_id = campaign_id @ ''_response_rate_'' @ str_int (int_timestamp now),
        al_level = CRITICAL, al_description = Critically_low,
        al_metric_type = RESPONSE_RATE, current_value = v,
        threshold_value = c, al_timestamp = now,
        acknowledged = False, actions_taken = []\<rparr>"
  using assms by (simp add: evaluate_threshold_critical_low)

lemma handle_alert_thresholds: "alert_thresholds (handle_alert m a) = alert_thresholds m"
  by (simp add: handle_alert_def Let_def)

lemma first_breach_alerts:
  "active_alerts first_breach =
     [(''camp1_response_rate_1000'',
       \<lparr>al_id = ''camp1_response_rate_1000'',
        al_level = CRITICAL, al_description = Critically_low,
        al_metric_type = RESPONSE_RATE, current_value = 0.01,
        threshold_value = 0.05, al_timestamp = 1000 * second,
        acknowledged = False,
        actions_taken = [''adjust_message_timing'', ''increase_personalization'',
                         ''review_message_content'']\<rparr>)]"
  and first_breach_thresholds:
    "alert_thresholds first_breach = alert_thresholds performance_monitor_init"
proof -
  obtain th where th: "alert_thresholds performance_monitor_init RESPONSE_RATE = Some th"
    "th ''critical_low'' = Some 0.05"
    using response_thresholds by blast
  have e: "first_breach = handle_alert performance_monitor_init
       \<lparr>al_id = ''camp1'' @ ''_response_rate_'' @ str_int (int_timestamp (1000 * second)),
        al_level = CRITICAL, al_description = Critically_low,
        al_metric_type = RESPONSE_RATE, current_value = 0.01,
        threshold_value = 0.05, al_timestamp = 1000 * second,
        acknowledged = False, actions_taken = []\<rparr>"
    unfolding first_breach_def by (rule check_single_breach [OF th]) simp
  show "alert_thresholds first_breach = alert_thresholds performance_monitor_init"
    by (simp only: e handle_alert_thresholds)
  have "active_alerts performance_monitor_init = []"
    by (simp add: performance_monitor_init_def)
  then show "active_alerts first_breach =
     [(''camp1_response_rate_1000'',
       \<lparr>al_id = ''camp1_response_rate_1000'',
        al_level = CRITICAL, al_description = Critically_low,
        al_metric_type = RESPONSE_RATE, current_value = 0.01,
        threshold_value = 0.05, al_timestamp = 1000 * second,
        acknowledged = False,
        actions_taken = [''adjust_message_timing'', ''increase_personalization'',
                         ''review_message_content'']\<rparr>)]"
    by (simp add: e str_1000 handle_alert_def dict_contains_def take_automatic_action_def Let_def)
qed

text \<open>
  The key \<open>_handle_alert\<close> looks up ends in a letter, the keys present end in a digit:
  in every monitor built from a fresh one by the alert check the look-up finds nothing and
  the alert is stored.
\<close>
lemma digit_char_digit: "d < 10 \<Longrightarrow> is_digit (digit_char d)"
  unfolding digit_char_def is_digit_def by (rule nth_mem) simp

lemma str_nat_ends_in_digit: "ends_in_digit (str_nat n)"
  by (subst str_nat.simps) (simp add: ends_in_digit_def digit_char_digit)

lemma ends_in_digit_append: "ends_in_digit t \<Longrightarrow> ends_in_digit (s @ t)"
  by (simp add: ends_in_digit_def)

lemma ends_in_digit_Cons: "ends_in_digit t \<Longrightarrow> ends_in_digit (c # t)"
  by (simp add: ends_in_digit_def)

lemma str_int_ends_in_digit: "ends_in_digit (str_int i)"
  by (simp add: str_int_def str_nat_ends_in_digit ends_in_digit_Cons)

lemma alert_key_no_digit: "\<not> ends_in_digit (metric_value mt @ ''_'' @ level_value lv)"
  by (cases lv) (simp_all add: ends_in_digit_def is_digit_def)

lemma lookup_finds_nothing:
  "keys_are_ids m \<Longrightarrow>
   \<not> dict_contains (active_alerts m) (metric_value mt @ ''_'' @ level_value lv)"
  using alert_key_no_digit [of mt lv]
  by (auto simp add: keys_are_ids_def dict_contains_def list_all_iff)

lemma evaluate_threshold_id:
  "evaluate_threshold now campaign_id metric_type v thresholds = Some a \<Longrightarrow>
   ends_in_digit (al_id a) \<and> \<not> acknowledged a \<and> al_metric_type a = metric_type"
  by (auto simp add: evaluate_threshold_def Let_def split: if_splits
        intro!: ends_in_digit_append ends_in_digit_Cons str_int_ends_in_digit)

lemma keys_update: "map fst (AList.update k v xs) = (if k \<in> set (map fst xs) then map fst xs else map fst xs @ [k])"
  by (induction xs) auto

lemma handle_alert_stores:
  assumes "keys_are_ids m"
  shows "map_of (active_alerts (handle_alert m a)) (al_id a)
           = Some (if al_level a = CRITICAL then take_automatic_action a else a)"
  using lookup_finds_nothing [OF assms, of "al_metric_type a" "al_level a"]
  by (simp add: handle_alert_def Let_def AList.update_conv')

lemma handle_alert_keys_are_ids:
  assumes "keys_are_ids m" and "ends_in_digit (al_id a)"
  shows "keys_are_ids (handle_alert m a)"
  using lookup_finds_nothing [OF assms(1), of "al_metric_type a" "al_level a"] assms
  by (simp add: handle_alert_def Let_def keys_are_ids_def keys_update)

lemma check_alert_conditions_keys_are_ids:
  "keys_are_ids m \<Longrightarrow> keys_are_ids (check_alert_conditions m now campaign_id metrics)"
proof (induction metrics arbitrary: m)
  case Nil
  then show ?case by simp
next
  case (Cons p metrics)
  obtain metric_type v where p: "p = (metric_type, v)" by (cases p)
  show ?case
    using Cons
    by (auto simp add: p split: option.splits
          intro!: handle_alert_keys_are_ids dest: evaluate_threshold_id)
qed

lemma performance_monitor_init_keys_are_ids: "keys_are_ids performance_monitor_init"
  by (simp add: keys_are_ids_def performance_monitor_init_def)

text \<open>
  C2 fails on the code. \<open>_handle_alert\<close> looks the key \<open><metric>_<level>\<close> up in
  \<open>active_alerts\<close>, but alerts are stored under their id
  \<open><campaign>_<metric>_<seconds>\<close>, so the look-up finds nothing: after two consecutive
  samples breaching the critical low threshold of the response rate there are two active,
  unacknowledged critical response-rate alerts, not one.
\<close>
theorem handle_alert_duplicate:
  "map al_id (unacknowledged_alerts second_breach RESPONSE_RATE CRITICAL)
     = [''camp1_response_rate_1000'', ''camp1_response_rate_1030'']
   \<and> length (unacknowledged_alerts second_breach RESPONSE_RATE CRITICAL) = 2"
proof -
  obtain th where th: "alert_thresholds first_breach RESPONSE_RATE = Some th"
    "th ''critical_low'' = Some 0.05"
    using response_thresholds first_breach_thresholds by auto
  have e: "second_breach = handle_alert first_breach
       \<lparr>al_id = ''camp1'' @ ''_response_rate_'' @ str_int (int_timestamp (1030 * second)),
        al_level = CRITICAL, al_description = Critically_low,
        al_metric_type = RESPONSE_RATE, current_value = 0.01,
        threshold_value = 0.05, al_timestamp = 1030 * second,
        acknowledged = False, actions_taken = []\<rparr>"
    unfolding second_breach_def by (rule check_single_breach [OF th]) simp
  show ?thesis
    by (simp add: e str_1030 handle_alert_def dict_contains_def take_automatic_action_def Let_def
          first_breach_alerts unacknowledged_alerts_def)
qed

section \<open>Properties of the optimization engine\<close>

text \<open>
  C9. For every action name outside the four known ones \<open>implement_optimization\<close> raises
  nothing: it returns a result with \<open>success = False\<close> and the error text
  \<open>Unknown optimization action: <name>\<close>, no changes, and leaves the engine (and its
  history) as it was.
\<close>
theorem implement_optimization_unknown_action:
  assumes "optimization_action \<notin>
             {''improve_conversion_rate'', ''optimize_message_timing'',
              ''investigate_delivery_issues'', ''scale_successful_segments''}"
  shows "\<exists>r. implement_optimization eng now campaign_id optimization_action = Inr (r, eng)
           \<and> ir_action r = optimization_action \<and> ir_campaign_id r = campaign_id
           \<and> success r = False
           \<and> ir_error r = Some (''Unknown optimization action: '' @ optimization_action)
           \<and> changes_made r = [] \<and> expected_impact r = []"
  using assms by (simp add: implement_optimization_def)

theorem implement_optimization_unknown_action_witness:
  "\<exists>r. implement_optimization optimization_engine_init 0 ''c1'' ''double_budget''
          = Inr (r, optimization_engine_init)
       \<and> ir_action r = ''double_budget'' \<and> ir_campaign_id r = ''c1''
       \<and> success r = False
       \<and> ir_error r = Some ''Unknown optimization action: double_budget''
       \<and> changes_made r = [] \<and> expected_impact r = []"
  using implement_optimization_unknown_action
    [of "''double_budget''" optimization_engine_init 0 "''c1''"]
  by simp

lemma analyze_immediate_actions:
  assumes "calculate_real_time_roi (roi_tracker eng) now campaign_id = Inr r"
  shows "\<exists>a. analyze_optimization_opportunities eng now campaign_id = Inr a
           \<and> an_roi_percentage a = roi_percentage r
           \<and> (''improve_conversion_rate''
                 \<in> set (map action (immediate_actions (an_opportunities a)))
               \<longleftrightarrow> roi_percentage r < 1500)"
  using assms
  by (auto simp add: analyze_optimization_opportunities_def bind_result_def Let_def
        split: option.splits)

text \<open>
  C1, as the code has it. The ROI target of the campaign is an input of neither function.
  In the scenario (one investment of 5000, conversions totalling 15000)
  \<open>calculate_real_time_roi\<close> yields \<open>roi_percentage = 200\<close>;
  \<open>analyze_optimization_opportunities\<close> lists the conversion-rate opportunity among the
  immediate actions exactly when \<open>roi_percentage < 1500\<close>, so here, with 200, it does
  list it.
\<close>
theorem analyze_scenario:
  assumes "dict_get (investment_tracking (roi_tracker eng)) campaign_id [] = [5000]"
    and "sum_list (dict_get (revenue_tracking (roi_tracker eng)) campaign_id []) = 15000"
  shows "\<exists>r a. calculate_real_time_roi (roi_tracker eng) now campaign_id = Inr r
           \<and> roi_percentage r = 200
           \<and> analyze_optimization_opportunities eng now campaign_id = Inr a
           \<and> an_roi_percentage a = 200
           \<and> (''improve_conversion_rate''
                 \<in> set (map action (immediate_actions (an_opportunities a)))
               \<longleftrightarrow> roi_percentage r < 1500)
           \<and> ''improve_conversion_rate''
                 \<in> set (map action (immediate_actions (an_opportunities a)))"
proof -
  obtain r where r: "calculate_real_time_roi (roi_tracker eng) now campaign_id = Inr r"
    and ri: "total_investment r = sum_list (dict_get (investment_tracking (roi_tracker eng)) campaign_id [])"
    and rr: "total_revenue r = sum_list (dict_get (revenue_tracking (roi_tracker eng)) campaign_id [])"
    and rp: "roi_percentage r =
           (if total_investment r > 0
            then (total_revenue r - total_investment r) / total_investment r * 100 else 0)"
    using calculate_real_time_roi_returns by blast
  from ri rr rp assms have p: "roi_percentage r = 200" by simp
  obtain a where a: "analyze_optimization_opportunities eng now campaign_id = Inr a"
    and ap: "an_roi_percentage a = roi_percentage r"
    and ai: "''improve_conversion_rate''
                 \<in> set (map action (immediate_actions (an_opportunities a)))
               \<longleftrightarrow> roi_percentage r < 1500"
    using analyze_immediate_actions [OF r] by blast
  from p ai have "''improve_conversion_rate''
                 \<in> set (map action (immediate_actions (an_opportunities a)))" by simp
  with r p a ap ai show ?thesis by auto
qed


theorem analyze_scenario_witness:
  "\<exists>r a. calculate_real_time_roi (roi_tracker scenario_engine) 0 ''camp1'' = Inr r
       \<and> roi_percentage r = 200
       \<and> analyze_optimization_opportunities scenario_engine 0 ''camp1'' = Inr a
       \<and> an_roi_percentage a = 200
       \<and> (''improve_conversion_rate''
             \<in> set (map action (immediate_actions (an_opportunities a)))
           \<longleftrightarrow> roi_percentage r < 1500)
       \<and> ''improve_conversion_rate''
             \<in> set (map action (immediate_actions (an_opportunities a)))"
  by (rule analyze_scenario) (simp_all add: scenario_engine_def scenario_ledger_lists)

text \<open>
  C1 as stated fails: in the scenario the immediate actions are not free of the
  conversion-rate opportunity, they consist of it.
\<close>
theorem analyze_scenario_counterexample:
  "length (dict_get (conversion_tracking (roi_tracker scenario_engine)) ''camp1'' []) = 12
   \<and> dict_get (investment_tracking (roi_tracker scenario_engine)) ''camp1'' [] = [5000]
   \<and> sum_list (dict_get (revenue_tracking (roi_tracker scenario_engine)) ''camp1'' []) = 15000
   \<and> roi_percentage (projr (calculate_real_time_roi (roi_tracker scenario_engine) 0 ''camp1''))
       = 200
   \<and> map action (immediate_actions (an_opportunities
        (projr (analyze_optimization_opportunities scenario_engine 0 ''camp1''))))
       = [''improve_conversion_rate'']"
proof -
  have t: "roi_tracker scenario_engine = scenario_ledger"
    and m: "performance_monitor scenario_engine = performance_monitor_init"
    by (simp_all add: scenario_engine_def)
  obtain r where r: "calculate_real_time_roi scenario_ledger 0 ''camp1'' = Inr r"
    and ri: "total_investment r = sum_list (dict_get (investment_tracking scenario_ledger) ''camp1'' [])"
    and rr: "total_revenue r = sum_list (dict_get (revenue_tracking scenario_ledger) ''camp1'' [])"
    and rp: "roi_percentage r =
           (if total_investment r > 0
            then (total_revenue r - total_investment r) / total_investment r * 100 else 0)"
    using calculate_real_time_roi_returns by blast
  from ri rr rp have p: "roi_percentage r = 200"
    by (simp add: scenario_ledger_lists)
  have s: "ps_metrics (get_performance_summary performance_monitor_init 0 ''camp1'' (24 * hour)) = []"
    by (simp add: get_performance_summary_def all_metric_types_def performance_monitor_init_def)
  have a: "map action (immediate_actions (an_opportunities
        (projr (analyze_optimization_opportunities scenario_engine 0 ''camp1''))))
       = [''improve_conversion_rate'']"
    by (simp add: analyze_optimization_opportunities_def bind_result_def t m r p s Let_def)
  show ?thesis
    by (simp add: t r p a scenario_ledger_lists)
qed

section \<open>Properties of the error engine\<close>

text \<open>
  C7. The recovery strategy is a function of the severity and the category of the record
  alone: \<open>FATAL\<close> severity gives \<open>MANUAL_INTERVENTION\<close>; otherwise \<open>NETWORK\<close> gives
  \<open>RETRY_WITH_BACKOFF\<close>, \<open>RATE_LIMITING\<close> \<open>CIRCUIT_BREAKER\<close>, \<open>AUTHENTICATION\<close>
  \<open>ESCALATION\<close>, \<open>API\<close> \<open>FALLBACK\<close>, \<open>DATABASE\<close> \<open>RETRY_WITH_BACKOFF\<close>, and every other
  category \<open>RETRY\<close>.
\<close>
theorem determine_recovery_strategy_table:
  "(severity r = FATAL \<longrightarrow> determine_recovery_strategy r = MANUAL_INTERVENTION)
   \<and> (severity r \<noteq> FATAL \<longrightarrow>
        (category r = NETWORK \<longrightarrow> determine_recovery_strategy r = RETRY_WITH_BACKOFF)
      \<and> (category r = RATE_LIMITING \<longrightarrow> determine_recovery_strategy r = CIRCUIT_BREAKER)
      \<and> (category r = AUTHENTICATION \<longrightarrow> determine_recovery_strategy r = ESCALATION)
      \<and> (category r = API \<longrightarrow> determine_recovery_strategy r = FALLBACK)
      \<and> (category r = DATABASE \<longrightarrow> determine_recovery_strategy r = RETRY_WITH_BACKOFF)
      \<and> (category r \<notin> {NETWORK, RATE_LIMITING, AUTHENTICATION, API, DATABASE} \<longrightarrow>
            determine_recovery_strategy r = RETRY))
   \<and> (severity r' = severity r \<and> category r' = category r \<longrightarrow>
        determine_recovery_strategy r' = determine_recovery_strategy r)"
proof -
  have fatal: "severity r = FATAL \<longrightarrow> determine_recovery_strategy r = MANUAL_INTERVENTION"
    by (simp add: determine_recovery_strategy_def)
  have table: "severity r \<noteq> FATAL \<longrightarrow>
        (category r = NETWORK \<longrightarrow> determine_recovery_strategy r = RETRY_WITH_BACKOFF)
      \<and> (category r = RATE_LIMITING \<longrightarrow> determine_recovery_strategy r = CIRCUIT_BREAKER)
      \<and> (category r = AUTHENTICATION \<longrightarrow> determine_recovery_strategy r = ESCALATION)
      \<and> (category r = API \<longrightarrow> determine_recovery_strategy r = FALLBACK)
      \<and> (category r = DATABASE \<longrightarrow> determine_recovery_strategy r = RETRY_WITH_BACKOFF)
      \<and> (category r \<notin> {NETWORK, RATE_LIMITING, AUTHENTICATION, API, DATABASE} \<longrightarrow>
            determine_recovery_strategy r = RETRY)"
    by (simp add: determine_recovery_strategy_def)
  have same: "determine_recovery_strategy r' = determine_recovery_strategy r"
    if "severity r' = severity r" and "category r' = category r"
    by (simp only: determine_recovery_strategy_def that)
  from fatal table same show ?thesis by blast
qed

lemma sample_record_fields:
  "severity (sample_record sev cat) = sev" "category (sample_record sev cat) = cat"
  by (simp_all add: sample_record_def)

theorem determine_recovery_strategy_table_witness:
  "determine_recovery_strategy (sample_record FATAL NETWORK) = MANUAL_INTERVENTION
   \<and> determine_recovery_strategy (sample_record SEVERITY_CRITICAL NETWORK) = RETRY_WITH_BACKOFF
   \<and> determine_recovery_strategy (sample_record MEDIUM RATE_LIMITING) = CIRCUIT_BREAKER
   \<and> determine_recovery_strategy (sample_record HIGH AUTHENTICATION) = ESCALATION
   \<and> determine_recovery_strategy (sample_record MEDIUM API) = FALLBACK
   \<and> determine_recovery_strategy (sample_record MEDIUM DATABASE) = RETRY_WITH_BACKOFF
   \<and> determine_recovery_strategy (sample_record MEDIUM SYSTEM) = RETRY
   \<and> determine_recovery_strategy (sample_record LOW DATA_VALIDATION) = RETRY
   \<and> determine_recovery_strategy ((sample_record MEDIUM SYSTEM)\<lparr>recovery_attempts := 2\<rparr>)
       = determine_recovery_strategy (sample_record MEDIUM SYSTEM)"
proof -
  have a: "determine_recovery_strategy (sample_record FATAL NETWORK) = MANUAL_INTERVENTION"
    using determine_recovery_strategy_table [of "sample_record FATAL NETWORK"]
    by (simp add: sample_record_fields)
  have b: "determine_recovery_strategy (sample_record SEVERITY_CRITICAL NETWORK) = RETRY_WITH_BACKOFF"
    using determine_recovery_strategy_table [of "sample_record SEVERITY_CRITICAL NETWORK"]
    by (simp add: sample_record_fields)
  have c: "determine_recovery_strategy (sample_record MEDIUM RATE_LIMITING) = CIRCUIT_BREAKER"
    using determine_recovery_strategy_table [of "sample_record MEDIUM RATE_LIMITING"]
    by (simp add: sample_record_fields)
  have d: "determine_recovery_strategy (sample_record HIGH AUTHENTICATION) = ESCALATION"
    using determine_recovery_strategy_table [of "sample_record HIGH AUTHENTICATION"]
    by (simp add: sample_record_fields)
  have e: "determine_recovery_strategy (sample_record MEDIUM API) = FALLBACK"
    using determine_recovery_strategy_table [of "sample_record MEDIUM API"]
    by (simp add: sample_record_fields)
  have f: "determine_recovery_strategy (sample_record MEDIUM DATABASE) = RETRY_WITH_BACKOFF"
    using determine_recovery_strategy_table [of "sample_record MEDIUM DATABASE"]
    by (simp add: sample_record_fields)
  have g: "determine_recovery_strategy (sample_record MEDIUM SYSTEM) = RETRY"
    using determine_recovery_strategy_table [of "sample_record MEDIUM SYSTEM"]
    by (simp add: sample_record_fields)
  have h: "determine_recovery_strategy (sample_record LOW DATA_VALIDATION) = RETRY"
    using determine_recovery_strategy_table [of "sample_record LOW DATA_VALIDATION"]
    by (simp add: sample_record_fields)
  have i: "determine_recovery_strategy ((sample_record MEDIUM SYSTEM)\<lparr>recovery_attempts := 2\<rparr>)
       = determine_recovery_strategy (sample_record MEDIUM SYSTEM)"
    using determine_recovery_strategy_table [of "sample_record MEDIUM SYSTEM"
        "(sample_record MEDIUM SYSTEM)\<lparr>recovery_attempts := 2\<rparr>"]
    by (simp add: sample_record_fields)
  from a b c d e f g h i show ?thesis by blast
qed

lemma handle_circuit_breaker_breakers:
  "\<exists>eng' res. handle_circuit_breaker eng now r = Inr (eng', res)
     \<and> circuit_breakers eng' =
         AList.update (or_default (component (er_context r)) ''unknown_component'')
           (after_failure now
              (map_of (circuit_breakers eng)
                 (or_default (component (er_context r)) ''unknown_component'')))
           (circuit_breakers eng)
     \<and> error_registry eng' = error_registry eng \<and> error_patterns eng' = error_patterns eng"
  by (simp add: handle_circuit_breaker_def after_failure_def Let_def)

lemma analyze_error_patterns_effect:
  "\<exists>eng1 r1. analyze_error_patterns eng now r = (eng1, r1)
     \<and> circuit_breakers eng1 = circuit_breakers eng
     \<and> error_registry eng1 = error_registry eng
     \<and> error_patterns eng1 =
         (error_patterns eng)(error_type r @ ''_'' @ category_value (category r) \<mapsto>
            dict_get (error_patterns eng) (error_type r @ ''_'' @ category_value (category r)) []
            @ [r])
     \<and> error_type r1 = error_type r \<and> category r1 = category r \<and> severity r1 = severity r
     \<and> er_context r1 = er_context r \<and> error_id r1 = error_id r"
  by (simp add: analyze_error_patterns_def Let_def)

lemma determine_recovery_strategy_cong:
  "severity r' = severity r \<Longrightarrow> category r' = category r \<Longrightarrow>
   determine_recovery_strategy r' = determine_recovery_strategy r"
  by (simp only: determine_recovery_strategy_def)

lemma determine_recovery_strategy_update [simp]:
  "determine_recovery_strategy (r\<lparr>recovery_strategy := s\<rparr>) = determine_recovery_strategy r"
  by (simp add: determine_recovery_strategy_def)

lemma execute_recovery_effect:
  "\<exists>eng2 r3 res. execute_recovery eng now later r = (eng2, r3, res)
     \<and> circuit_breakers eng2 =
         (if recovery_strategy r = CIRCUIT_BREAKER then
            AList.update (or_default (component (er_context r)) ''unknown_component'')
              (after_failure now
                 (map_of (circuit_breakers eng)
                    (or_default (component (er_context r)) ''unknown_component'')))
              (circuit_breakers eng)
          else circuit_breakers eng)
     \<and> error_registry eng2 = error_registry eng \<and> error_patterns eng2 = error_patterns eng
     \<and> error_type r3 = error_type r \<and> category r3 = category r \<and> severity r3 = severity r
     \<and> er_context r3 = er_context r \<and> error_id r3 = error_id r
     \<and> recovery_strategy r3 = recovery_strategy r"
proof (cases "recovery_strategy r")
  case CIRCUIT_BREAKER
  obtain eng' res where h: "handle_circuit_breaker eng now r = Inr (eng', res)"
    and b: "circuit_breakers eng' =
         AList.update (or_default (component (er_context r)) ''unknown_component'')
           (after_failure now
              (map_of (circuit_breakers eng)
                 (or_default (component (er_context r)) ''unknown_component'')))
           (circuit_breakers eng)"
    and o: "error_registry eng' = error_registry eng" "error_patterns eng' = error_patterns eng"
    using handle_circuit_breaker_breakers by blast
  show ?thesis
    by (simp add: execute_recovery_def CIRCUIT_BREAKER h b o Let_def)
qed (simp_all add: execute_recovery_def Let_def handle_simple_retry_def handle_backoff_retry_def
       handle_fallback_def handle_graceful_degradation_def)


lemma create_error_record_fields:
  "error_type (create_error_record h now e ctx) = exc_type e"
  "category (create_error_record h now e ctx) = classify_error_category e ctx"
  "severity (create_error_record h now e ctx) = classify_error_severity e ctx"
  "er_context (create_error_record h now e ctx) = ctx"
  "recovery_strategy (create_error_record h now e ctx) = RETRY"
  by (simp_all add: create_error_record_def)

lemma handle_error_effect:
  fixes eng h now later e ctx
  defines "strategy \<equiv> determine_recovery_strategy (create_error_record h now e ctx)"
    and "key \<equiv> exc_type e @ ''_'' @ category_value (classify_error_category e ctx)"
    and "cname \<equiv> or_default (component ctx) ''unknown_component''"
  shows "he_recovery_strategy (fst (handle_error eng h now later e ctx))
           = strategy_value strategy"
    and "circuit_breakers (snd (handle_error eng h now later e ctx)) =
           (if strategy = CIRCUIT_BREAKER then
              AList.update cname (after_failure now (map_of (circuit_breakers eng) cname))
                (circuit_breakers eng)
            else circuit_breakers eng)"
    and "map er_context (dict_get (error_patterns (snd (handle_error eng h now later e ctx))) key [])
           = map er_context (dict_get (error_patterns eng) key []) @ [ctx]"
    and "map recovery_strategy
           (dict_get (error_patterns (snd (handle_error eng h now later e ctx))) key [])
           = map recovery_strategy (dict_get (error_patterns eng) key []) @ [strategy]"
proof -
  define r0 where "r0 = create_error_record h now e ctx"
  define eng0 where
    "eng0 = eng\<lparr>error_registry := AList.update (error_id r0) r0 (error_registry eng)\<rparr>"
  obtain eng1 r1 where a: "analyze_error_patterns eng0 now r0 = (eng1, r1)"
    and a1: "circuit_breakers eng1 = circuit_breakers eng0"
    and a2: "error_patterns eng1 =
         (error_patterns eng0)(error_type r0 @ ''_'' @ category_value (category r0) \<mapsto>
            dict_get (error_patterns eng0) (error_type r0 @ ''_'' @ category_value (category r0)) []
            @ [r0])"
    and a3: "error_type r1 = error_type r0" "category r1 = category r0"
      "severity r1 = severity r0" "er_context r1 = er_context r0"
    using analyze_error_patterns_effect [of eng0 now r0] by blast
  have s: "determine_recovery_strategy r1 = strategy"
    unfolding strategy_def r0_def [symmetric]
    by (rule determine_recovery_strategy_cong) (simp_all add: a3)
  define r2 where "r2 = r1\<lparr>recovery_strategy := strategy\<rparr>"
  obtain eng2 r3 res where x: "execute_recovery eng1 now later r2 = (eng2, r3, res)"
    and x1: "circuit_breakers eng2 =
         (if recovery_strategy r2 = CIRCUIT_BREAKER then
            AList.update (or_default (component (er_context r2)) ''unknown_component'')
              (after_failure now
                 (map_of (circuit_breakers eng1)
                    (or_default (component (er_context r2)) ''unknown_component'')))
              (circuit_breakers eng1)
          else circuit_breakers eng1)"
    and x2: "error_patterns eng2 = error_patterns eng1"
    and x3: "error_type r3 = error_type r2" "category r3 = category r2"
      "er_context r3 = er_context r2" "recovery_strategy r3 = recovery_strategy r2"
    using execute_recovery_effect [of eng1 now later r2] by blast
  have h: "handle_error eng h now later e ctx =
      (\<lparr>he_error_id = error_id r3,
        he_severity = severity_value (severity r3),
        he_category = category_value (category r3),
        he_recovery_strategy = strategy_value strategy,
        he_recovery_success = rr_success res,
        he_recovery_time = rr_execution_time res,
        he_next_steps = rr_next_steps res\<rparr>,
       store_record eng2 r3)"
    by (simp add: handle_error_def Let_def r0_def [symmetric] eng0_def [symmetric] a
          r2_def [symmetric] x s)
  have f: "error_type r3 = exc_type e" "category r3 = classify_error_category e ctx"
    "er_context r3 = ctx" "recovery_strategy r3 = strategy" "er_context r2 = ctx"
    "recovery_strategy r2 = strategy"
    "error_type r0 = exc_type e" "category r0 = classify_error_category e ctx"
    by (simp_all add: x3 r2_def a3 s r0_def create_error_record_fields)
  show "he_recovery_strategy (fst (handle_error eng h now later e ctx))
           = strategy_value strategy"
    by (simp add: h)
  have b0: "circuit_breakers eng0 = circuit_breakers eng"
    and p0: "error_patterns eng0 = error_patterns eng"
    by (simp_all add: eng0_def)
  show "circuit_breakers (snd (handle_error eng h now later e ctx)) =
           (if strategy = CIRCUIT_BREAKER then
              AList.update cname (after_failure now (map_of (circuit_breakers eng) cname))
                (circuit_breakers eng)
            else circuit_breakers eng)"
    by (simp add: h store_record_def Let_def x1 f a1 b0 cname_def)
  have p: "dict_get (error_patterns (snd (handle_error eng h now later e ctx))) key []
             = dict_get (error_patterns eng) key [] @ [r3]"
    by (simp add: h store_record_def Let_def f key_def x2 a2 p0 dict_get_def)
  show "map er_context (dict_get (error_patterns (snd (handle_error eng h now later e ctx))) key [])
           = map er_context (dict_get (error_patterns eng) key []) @ [ctx]"
    by (simp add: p f)
  show "map recovery_strategy
           (dict_get (error_patterns (snd (handle_error eng h now later e ctx))) key [])
           = map recovery_strategy (dict_get (error_patterns eng) key []) @ [strategy]"
    by (simp add: p f)
qed

lemma classify_send_failed:
  "classify_error_category (campaign_error ''message send failed'') (send_context t) = SYSTEM"
  "classify_error_severity (campaign_error ''message send failed'') (send_context t) = MEDIUM"
  by (simp_all add: classify_error_category_def classify_error_severity_def campaign_error_def
        isinstance_def lower_def lower_char_def Let_def)

lemma classify_rate_limit:
  "classify_error_category (campaign_error ''429 rate limit exceeded'') (send_context t)
     = RATE_LIMITING"
  "classify_error_severity (campaign_error ''429 rate limit exceeded'') (send_context t) = MEDIUM"
  by (simp_all add: classify_error_category_def classify_error_severity_def campaign_error_def
        isinstance_def lower_def lower_char_def Let_def)

lemma classify_connection:
  "classify_error_category connection_error (send_context t) = NETWORK"
  "classify_error_severity connection_error (send_context t) = SEVERITY_CRITICAL"
  by (simp_all add: classify_error_category_def classify_error_severity_def connection_error_def
        isinstance_def send_context_def truthy_def Let_def)

lemma determine_concrete:
  "determine_recovery_strategy
     (create_error_record h now (campaign_error ''message send failed'') (send_context t)) = RETRY"
  "determine_recovery_strategy
     (create_error_record h now (campaign_error ''429 rate limit exceeded'') (send_context t))
     = CIRCUIT_BREAKER"
  "determine_recovery_strategy (create_error_record h now connection_error (send_context t))
     = RETRY_WITH_BACKOFF"
  by (simp_all add: determine_recovery_strategy_def create_error_record_fields
        classify_send_failed classify_rate_limit classify_connection)

lemma handle_errors_Cons:
  "handle_errors eng e (t # ts)
     = handle_errors (snd (handle_error eng fixed_hash t (t + second) e (send_context t))) e ts"
  and handle_errors_Nil: "handle_errors eng e [] = eng"
  by (simp_all add: handle_errors_def)

lemma handle_errors_snoc:
  "handle_errors eng e (ts @ [t])
     = snd (handle_error (handle_errors eng e ts) fixed_hash t (t + second) e (send_context t))"
  by (simp add: handle_errors_def)

lemma reachable_handle_errors: "reachable eng \<Longrightarrow> reachable (handle_errors eng e ts)"
  by (induction ts arbitrary: eng) (simp_all add: handle_errors_Cons handle_errors_Nil reachable.intros)

lemma exc_type_campaign_error: "exc_type (campaign_error msg) = ''CampaignError''"
  by (simp add: campaign_error_def)

lemma error_engine_init_fields:
  "dict_get (error_patterns error_engine_init) k [] = []"
  "circuit_breakers error_engine_init = []"
  by (simp_all add: error_engine_init_def dict_get_def)

lemma handle_errors_send_failed:
  "circuit_breakers (handle_errors eng (campaign_error ''message send failed'') ts)
     = circuit_breakers eng
   \<and> map er_context
       (dict_get (error_patterns (handle_errors eng (campaign_error ''message send failed'') ts))
          ''CampaignError_system'' [])
     = map er_context (dict_get (error_patterns eng) ''CampaignError_system'' [])
       @ map send_context ts"
proof (induction ts arbitrary: eng)
  case Nil
  show ?case by (simp add: handle_errors_Nil)
next
  case (Cons t ts)
  have k: "exc_type (campaign_error ''message send failed'') @ ''_''
             @ category_value (classify_error_category (campaign_error ''message send failed'')
                 (send_context t)) = ''CampaignError_system''"
    by (simp add: classify_send_failed exc_type_campaign_error)
  note b = handle_error_effect(2) [of eng fixed_hash t "t + second"
        "campaign_error ''message send failed''" "send_context t"]
  note p = handle_error_effect(3) [of eng fixed_hash t "t + second"
        "campaign_error ''message send failed''" "send_context t", unfolded k]
  show ?case
    by (simp add: handle_errors_Cons Cons.IH determine_concrete b p)
qed

lemma handle_errors_connection:
  "circuit_breakers (handle_errors eng connection_error ts) = circuit_breakers eng"
proof (induction ts arbitrary: eng)
  case Nil
  show ?case by (simp add: handle_errors_Nil)
next
  case (Cons t ts)
  show ?case
    using handle_error_effect(2) [of eng fixed_hash t "t + second" connection_error
        "send_context t"]
    by (simp add: handle_errors_Cons Cons.IH determine_concrete)
qed

text \<open>
  C4 fails on the code. \<open>_analyze_error_patterns\<close> moves the record from \<open>RETRY\<close> to
  \<open>CIRCUIT_BREAKER\<close> on the fifth error of a pattern within the hour, but \<open>handle_error\<close>
  then assigns the strategy of \<open>_determine_recovery_strategy\<close> to the record and returns
  that one, so the escalation is lost. For five \<open>CampaignError\<close>s of category \<open>SYSTEM\<close>
  (strategy \<open>RETRY\<close>) on \<open>waha-send\<close>, one per minute: all five are in the pattern within
  the hour, the fifth call returns the strategy \<open>retry\<close>, and no circuit breaker exists
  afterwards. For five \<open>ConnectionError\<close>s (category \<open>NETWORK\<close>) the fifth call returns
  \<open>retry_with_backoff\<close>, again with no breaker.
\<close>
theorem handle_error_escalation_lost:
  "determine_recovery_strategy
     (create_error_record fixed_hash (4 * minute) (campaign_error ''message send failed'')
        (send_context (4 * minute))) = RETRY
   \<and> length (filter (\<lambda>err. 4 * minute - ctx_timestamp (er_context err) < hour)
        (dict_get (error_patterns
           (handle_errors error_engine_init (campaign_error ''message send failed'') five_minutes))
           ''CampaignError_system'' [])) = 5
   \<and> he_recovery_strategy
        (fst (handle_error
           (handle_errors error_engine_init (campaign_error ''message send failed'')
              [0, minute, 2 * minute, 3 * minute])
           fixed_hash (4 * minute) (4 * minute + second)
           (campaign_error ''message send failed'') (send_context (4 * minute)))) = ''retry''
   \<and> get_circuit_breaker_status
        (handle_errors error_engine_init (campaign_error ''message send failed'') five_minutes)
       = []
   \<and> he_recovery_strategy
        (fst (handle_error
           (handle_errors error_engine_init connection_error [0, minute, 2 * minute, 3 * minute])
           fixed_hash (4 * minute) (4 * minute + second)
           connection_error (send_context (4 * minute)))) = ''retry_with_backoff''
   \<and> get_circuit_breaker_status (handle_errors error_engine_init connection_error five_minutes)
       = []"
proof -
  have a: "determine_recovery_strategy
     (create_error_record fixed_hash (4 * minute) (campaign_error ''message send failed'')
        (send_context (4 * minute))) = RETRY"
    by (rule determine_concrete)
  have "map er_context (dict_get (error_patterns
           (handle_errors error_engine_init (campaign_error ''message send failed'') five_minutes))
           ''CampaignError_system'' []) = map send_context five_minutes"
    by (simp add: handle_errors_send_failed error_engine_init_fields)
  then have "length (filter (\<lambda>c. 4 * minute - ctx_timestamp c < hour)
        (map er_context (dict_get (error_patterns
           (handle_errors error_engine_init (campaign_error ''message send failed'') five_minutes))
           ''CampaignError_system'' []))) = 5"
    by (simp add: five_minutes_def send_context_def hour_def minute_def second_def)
  then have b: "length (filter (\<lambda>err. 4 * minute - ctx_timestamp (er_context err) < hour)
        (dict_get (error_patterns
           (handle_errors error_engine_init (campaign_error ''message send failed'') five_minutes))
           ''CampaignError_system'' [])) = 5"
    by (simp add: filter_map comp_def)
  have c: "he_recovery_strategy
        (fst (handle_error
           (handle_errors error_engine_init (campaign_error ''message send failed'')
              [0, minute, 2 * minute, 3 * minute])
           fixed_hash (4 * minute) (4 * minute + second)
           (campaign_error ''message send failed'') (send_context (4 * minute)))) = ''retry''"
    by (simp add: handle_error_effect(1) determine_concrete)
  have d: "get_circuit_breaker_status
        (handle_errors error_engine_init (campaign_error ''message send failed'') five_minutes)
       = []"
    by (simp add: get_circuit_breaker_status_def handle_errors_send_failed error_engine_init_fields)
  have e: "he_recovery_strategy
        (fst (handle_error
           (handle_errors error_engine_init connection_error [0, minute, 2 * minute, 3 * minute])
           fixed_hash (4 * minute) (4 * minute + second)
           connection_error (send_context (4 * minute)))) = ''retry_with_backoff''"
    by (simp add: handle_error_effect(1) determine_concrete)
  have f: "get_circuit_breaker_status (handle_errors error_engine_init connection_error five_minutes)
       = []"
    by (simp add: get_circuit_breaker_status_def handle_errors_connection error_engine_init_fields)
  from a b c d e f show ?thesis by blast
qed

lemma after_failure_consistent:
  "(\<And>b. old = Some b \<Longrightarrow> breaker_consistent b) \<Longrightarrow> breaker_consistent (after_failure now old)"
  by (cases old) (auto simp add: after_failure_def breaker_consistent_def Let_def)

lemma after_failure_stays_open:
  "breaker_consistent b \<Longrightarrow> state b = ''open'' \<Longrightarrow> state (after_failure now (Some b)) = ''open''"
  by (simp add: after_failure_def breaker_consistent_def Let_def)

lemma map_of_update: "map_of (AList.update k v xs) = (map_of xs)(k \<mapsto> v)"
  by (rule AList.update_conv')

lemma list_all_update:
  "P (k, v) \<Longrightarrow> list_all P xs \<Longrightarrow> list_all P (AList.update k v xs)"
  by (induction xs) auto

lemma list_all_map_of:
  "list_all P xs \<Longrightarrow> map_of xs k = Some v \<Longrightarrow> P (k, v)"
  by (induction xs) (auto split: if_splits)

lemma reachable_consistent:
  "reachable eng \<Longrightarrow> list_all (\<lambda>(c, b). breaker_consistent b) (circuit_breakers eng)"
proof (induction rule: reachable.induct)
  case reachable_init
  show ?case by (simp add: error_engine_init_def)
next
  case (reachable_handle_error eng hash_str now later e ctx)
  let ?c = "or_default (component ctx) ''unknown_component''"
  have "breaker_consistent (after_failure now (map_of (circuit_breakers eng) ?c))"
    using list_all_map_of [OF reachable_handle_error.IH, of ?c]
    by (intro after_failure_consistent) auto
  then show ?case
    using reachable_handle_error.IH
    by (simp add: handle_error_effect(2) list_all_update)
next
  case (reachable_reset eng cname)
  show ?case
  proof (cases "map_of (circuit_breakers eng) cname")
    case None
    then show ?thesis
      using reachable_reset.IH by (simp add: reset_circuit_breaker_def)
  next
    case (Some b)
    have "breaker_consistent b"
      using list_all_map_of [OF reachable_reset.IH Some] by simp
    then have "breaker_consistent (b\<lparr>state := ''closed'', failure_count := 0, last_failure := None\<rparr>)"
      by (simp add: breaker_consistent_def)
    then show ?thesis
      using reachable_reset.IH Some
      by (simp add: reset_circuit_breaker_def list_all_update)
  qed
qed

lemma reachable_breakers_open_iff_threshold:
  assumes "reachable eng"
  shows "(\<forall>cname st n lf. (cname, st, n, lf) \<in> set (get_circuit_breaker_status eng) \<longrightarrow>
            (\<exists>b. (cname, b) \<in> set (circuit_breakers eng)
                 \<and> st = state b \<and> n = failure_count b \<and> lf = last_failure b
                 \<and> failure_threshold b = 5 \<and> timeout b = 5 * minute
                 \<and> (st = ''open'') = (n \<ge> failure_threshold b)
                 \<and> (st = ''open'' \<or> st = ''closed'')))
       \<and> (\<forall>cname b hash_str now later e ctx.
            map_of (circuit_breakers eng) cname = Some b \<and> state b = ''open'' \<longrightarrow>
            (\<exists>b'. map_of (circuit_breakers (snd (handle_error eng hash_str now later e ctx))) cname
                    = Some b'
                 \<and> state b' = ''open'' \<and> failure_count b' \<ge> failure_count b))"
proof (intro conjI allI impI)
  fix cname st n lf
  assume "(cname, st, n, lf) \<in> set (get_circuit_breaker_status eng)"
  then obtain b where b: "(cname, b) \<in> set (circuit_breakers eng)"
    and e: "st = state b" "n = failure_count b" "lf = last_failure b"
    by (auto simp add: get_circuit_breaker_status_def)
  from reachable_consistent [OF assms] b have "breaker_consistent b"
    by (auto simp add: list_all_iff)
  with b e show "\<exists>b. (cname, b) \<in> set (circuit_breakers eng)
                 \<and> st = state b \<and> n = failure_count b \<and> lf = last_failure b
                 \<and> failure_threshold b = 5 \<and> timeout b = 5 * minute
                 \<and> (st = ''open'') = (n \<ge> failure_threshold b)
                 \<and> (st = ''open'' \<or> st = ''closed'')"
    by (auto simp add: breaker_consistent_def)
next
  fix cname b hash_str now later e ctx
  assume a: "map_of (circuit_breakers eng) cname = Some b \<and> state b = ''open''"
  have c: "breaker_consistent b"
    using list_all_map_of [OF reachable_consistent [OF assms], of cname b] a by simp
  have s: "state (after_failure now (Some b)) = ''open''"
    using after_failure_stays_open [OF c] a by simp
  have n: "failure_count (after_failure now (Some b)) \<ge> failure_count b"
    by (simp add: after_failure_def Let_def)
  show "\<exists>b'. map_of (circuit_breakers (snd (handle_error eng hash_str now later e ctx))) cname
                    = Some b'
                 \<and> state b' = ''open'' \<and> failure_count b' \<ge> failure_count b"
    using a s n by (auto simp add: handle_error_effect(2) map_of_update)
qed


lemma reset_circuit_breaker_effect:
  "(\<forall>cname b. map_of (circuit_breakers eng) cname = Some b \<longrightarrow>
      snd (reset_circuit_breaker eng cname) = True
      \<and> map_of (circuit_breakers (fst (reset_circuit_breaker eng cname))) cname
          = Some (b\<lparr>state := ''closed'', failure_count := 0, last_failure := None\<rparr>)
      \<and> (\<forall>other. other \<noteq> cname \<longrightarrow>
            map_of (circuit_breakers (fst (reset_circuit_breaker eng cname))) other
              = map_of (circuit_breakers eng) other))
   \<and> (\<forall>cname. map_of (circuit_breakers eng) cname = None \<longrightarrow>
         reset_circuit_breaker eng cname = (eng, False))"
  by (simp add: reset_circuit_breaker_def map_of_update)

text \<open>
  C5, as the code has it. In every engine reached by handling errors and resetting
  breakers, each entry of the status report is the stored state of a breaker with
  threshold 5 and time-out 5 minutes, and the reported state is \<open>open\<close> exactly when the
  failure count has reached the threshold and \<open>closed\<close> otherwise (so never
  \<open>half_open\<close>, and never open below the threshold). The report does not read the clock,
  and an open breaker is still open after any further handled error, whatever the time.
  \<open>reset_circuit_breaker\<close> closes the breaker of the named component (count 0, no last
  failure), leaves the other breakers as they are and returns \<open>True\<close>; for a component
  without a breaker it changes nothing and returns \<open>False\<close>.
\<close>
theorem circuit_breaker_open_iff_threshold:
  assumes "reachable eng"
  shows "(\<forall>cname st n lf. (cname, st, n, lf) \<in> set (get_circuit_breaker_status eng) \<longrightarrow>
            (\<exists>b. (cname, b) \<in> set (circuit_breakers eng)
                 \<and> st = state b \<and> n = failure_count b \<and> lf = last_failure b
                 \<and> failure_threshold b = 5 \<and> timeout b = 5 * minute
                 \<and> (st = ''open'') = (n \<ge> failure_threshold b)
                 \<and> (st = ''open'' \<or> st = ''closed'')))
       \<and> (\<forall>cname b hash_str now later e ctx.
            map_of (circuit_breakers eng) cname = Some b \<and> state b = ''open'' \<longrightarrow>
            (\<exists>b'. map_of (circuit_breakers (snd (handle_error eng hash_str now later e ctx))) cname
                    = Some b'
                 \<and> state b' = ''open'' \<and> failure_count b' \<ge> failure_count b))
       \<and> (\<forall>cname b. map_of (circuit_breakers eng) cname = Some b \<longrightarrow>
            snd (reset_circuit_breaker eng cname) = True
            \<and> map_of (circuit_breakers (fst (reset_circuit_breaker eng cname))) cname
                = Some (b\<lparr>state := ''closed'', failure_count := 0, last_failure := None\<rparr>)
            \<and> (\<forall>other. other \<noteq> cname \<longrightarrow>
                  map_of (circuit_breakers (fst (reset_circuit_breaker eng cname))) other
                    = map_of (circuit_breakers eng) other))
       \<and> (\<forall>cname. map_of (circuit_breakers eng) cname = None \<longrightarrow>
            reset_circuit_breaker eng cname = (eng, False))"
  using reachable_breakers_open_iff_threshold [OF assms] reset_circuit_breaker_effect [of eng]
  by blast

lemma handle_errors_rate_limit:
  "circuit_breakers (handle_errors eng (campaign_error ''429 rate limit exceeded'') ts)
     = fold (\<lambda>t bs. AList.update ''waha-send'' (after_failure t (map_of bs ''waha-send'')) bs)
         ts (circuit_breakers eng)"
proof (induction ts arbitrary: eng)
  case Nil
  show ?case by (simp add: handle_errors_Nil)
next
  case (Cons t ts)
  have c: "or_default (component (send_context t)) ''unknown_component'' = ''waha-send''"
    by (simp add: or_default_def send_context_def)
  note b = handle_error_effect(2) [of eng fixed_hash t "t + second"
        "campaign_error ''429 rate limit exceeded''" "send_context t", unfolded c]
  show ?case
    by (simp add: handle_errors_Cons Cons.IH determine_concrete b)
qed

lemma tripped_breakers:
  "circuit_breakers tripped_engine =
     [(''waha-send'',
       \<lparr>state = ''open'', failure_count = 5, failure_threshold = 5, timeout = 5 * minute,
        last_failure = Some (4 * minute)\<rparr>)]"
  by (simp add: tripped_engine_def handle_errors_rate_limit error_engine_init_fields
        five_minutes_def after_failure_def Let_def)

lemma sixth_failure_breakers:
  "circuit_breakers
     (snd (handle_error tripped_engine fixed_hash (20 * minute) (20 * minute + second)
        (campaign_error ''429 rate limit exceeded'') (send_context (20 * minute)))) =
     [(''waha-send'',
       \<lparr>state = ''open'', failure_count = 6, failure_threshold = 5, timeout = 5 * minute,
        last_failure = Some (20 * minute)\<rparr>)]"
proof -
  have c: "or_default (component (send_context (20 * minute))) ''unknown_component'' = ''waha-send''"
    by (simp add: or_default_def send_context_def)
  note b = handle_error_effect(2) [of tripped_engine fixed_hash "20 * minute"
        "20 * minute + second" "campaign_error ''429 rate limit exceeded''"
        "send_context (20 * minute)", unfolded c]
  show ?thesis
    by (simp add: b determine_concrete tripped_breakers after_failure_def Let_def)
qed

lemma tripped_reset:
  "reset_circuit_breaker tripped_engine ''waha-send''
     = (tripped_engine\<lparr>circuit_breakers :=
          [(''waha-send'',
            \<lparr>state = ''closed'', failure_count = 0, failure_threshold = 5, timeout = 5 * minute,
             last_failure = None\<rparr>)]\<rparr>, True)"
  and tripped_reset_other:
    "map_of (circuit_breakers tripped_engine) ''n8n'' = None"
  by (simp_all add: reset_circuit_breaker_def tripped_breakers)

theorem circuit_breaker_open_iff_threshold_witness:
  "reachable tripped_engine
   \<and> (''waha-send'', ''open'', 5, Some (4 * minute)) \<in> set (get_circuit_breaker_status tripped_engine)
   \<and> (\<exists>b. (''waha-send'', b) \<in> set (circuit_breakers tripped_engine)
           \<and> ''open'' = state b \<and> 5 = failure_count b \<and> Some (4 * minute) = last_failure b
           \<and> failure_threshold b = 5 \<and> timeout b = 5 * minute
           \<and> (''open'' = ''open'') = (5 \<ge> failure_threshold b)
           \<and> (''open'' = ''open'' \<or> ''open'' = ''closed''))
   \<and> (\<exists>b. map_of (circuit_breakers tripped_engine) ''waha-send'' = Some b \<and> state b = ''open''
        \<and> (\<exists>b'. map_of (circuit_breakers
                 (snd (handle_error tripped_engine fixed_hash (20 * minute) (20 * minute + second)
                    (campaign_error ''429 rate limit exceeded'') (send_context (20 * minute)))))
                 ''waha-send'' = Some b'
              \<and> state b' = ''open'' \<and> failure_count b' \<ge> failure_count b))
   \<and> snd (reset_circuit_breaker tripped_engine ''waha-send'') = True
   \<and> map_of (circuit_breakers (fst (reset_circuit_breaker tripped_engine ''waha-send'')))
        ''waha-send''
       = Some \<lparr>state = ''closed'', failure_count = 0, failure_threshold = 5,
               timeout = 5 * minute, last_failure = None\<rparr>
   \<and> get_circuit_breaker_status (fst (reset_circuit_breaker tripped_engine ''waha-send''))
       = [(''waha-send'', ''closed'', 0, None)]
   \<and> map_of (circuit_breakers tripped_engine) ''n8n'' = None
   \<and> reset_circuit_breaker tripped_engine ''n8n'' = (tripped_engine, False)"
proof -
  have r: "reachable tripped_engine"
    unfolding tripped_engine_def by (rule reachable_handle_errors) (rule reachable_init)
  have m: "(''waha-send'', ''open'', 5, Some (4 * minute))
             \<in> set (get_circuit_breaker_status tripped_engine)"
    by (simp add: get_circuit_breaker_status_def tripped_breakers)
  have o: "map_of (circuit_breakers tripped_engine) ''waha-send''
             = Some \<lparr>state = ''open'', failure_count = 5, failure_threshold = 5,
                     timeout = 5 * minute, last_failure = Some (4 * minute)\<rparr>"
    by (simp add: tripped_breakers)
  note t = circuit_breaker_open_iff_threshold [OF r]
  from t have t1: "\<forall>cname st n lf.
            (cname, st, n, lf) \<in> set (get_circuit_breaker_status tripped_engine) \<longrightarrow>
            (\<exists>b. (cname, b) \<in> set (circuit_breakers tripped_engine)
                 \<and> st = state b \<and> n = failure_count b \<and> lf = last_failure b
                 \<and> failure_threshold b = 5 \<and> timeout b = 5 * minute
                 \<and> (st = ''open'') = (n \<ge> failure_threshold b)
                 \<and> (st = ''open'' \<or> st = ''closed''))"
    and t2: "\<forall>cname b hash_str now later e ctx.
            map_of (circuit_breakers tripped_engine) cname = Some b \<and> state b = ''open'' \<longrightarrow>
            (\<exists>b'. map_of (circuit_breakers
                      (snd (handle_error tripped_engine hash_str now later e ctx))) cname
                    = Some b'
                 \<and> state b' = ''open'' \<and> failure_count b' \<ge> failure_count b)"
    and t3: "\<forall>cname b. map_of (circuit_breakers tripped_engine) cname = Some b \<longrightarrow>
            snd (reset_circuit_breaker tripped_engine cname) = True
            \<and> map_of (circuit_breakers (fst (reset_circuit_breaker tripped_engine cname))) cname
                = Some (b\<lparr>state := ''closed'', failure_count := 0, last_failure := None\<rparr>)
            \<and> (\<forall>other. other \<noteq> cname \<longrightarrow>
                  map_of (circuit_breakers (fst (reset_circuit_breaker tripped_engine cname))) other
                    = map_of (circuit_breakers tripped_engine) other)"
    and t4: "\<forall>cname. map_of (circuit_breakers tripped_engine) cname = None \<longrightarrow>
            reset_circuit_breaker tripped_engine cname = (tripped_engine, False)"
    by blast+
  from t1 m have a: "\<exists>b. (''waha-send'', b) \<in> set (circuit_breakers tripped_engine)
           \<and> ''open'' = state b \<and> 5 = failure_count b \<and> Some (4 * minute) = last_failure b
           \<and> failure_threshold b = 5 \<and> timeout b = 5 * minute
           \<and> (''open'' = ''open'') = (5 \<ge> failure_threshold b)
           \<and> (''open'' = ''open'' \<or> ''open'' = ''closed'')"
    by blast
  from t2 o have b: "\<exists>b'. map_of (circuit_breakers
                 (snd (handle_error tripped_engine fixed_hash (20 * minute) (20 * minute + second)
                    (campaign_error ''429 rate limit exceeded'') (send_context (20 * minute)))))
                 ''waha-send'' = Some b'
              \<and> state b' = ''open'' \<and> failure_count b' \<ge> 5"
    by fastforce
  from t3 o have c: "snd (reset_circuit_breaker tripped_engine ''waha-send'') = True"
    and d: "map_of (circuit_breakers (fst (reset_circuit_breaker tripped_engine ''waha-send'')))
        ''waha-send''
       = Some \<lparr>state = ''closed'', failure_count = 0, failure_threshold = 5,
               timeout = 5 * minute, last_failure = None\<rparr>"
    by fastforce+
  have e: "get_circuit_breaker_status (fst (reset_circuit_breaker tripped_engine ''waha-send''))
       = [(''waha-send'', ''closed'', 0, None)]"
    by (simp add: tripped_reset get_circuit_breaker_status_def)
  from t4 tripped_reset_other
  have f: "reset_circuit_breaker tripped_engine ''n8n'' = (tripped_engine, False)"
    by blast
  from r m a b o c d e f tripped_reset_other show ?thesis by auto
qed

text \<open>
  C5 as stated fails in its last part: after five rate-limit errors the breaker of
  \<open>waha-send\<close> is open with its last failure at minute 4; the status report, which takes no
  clock, says \<open>open\<close> also 16 minutes later, past the 5 minute cool-down, and a sixth error
  handled at minute 20 leaves it \<open>open\<close> with count 6. No code writes \<open>half_open\<close>.
\<close>
theorem circuit_breaker_stays_open_counterexample:
  "get_circuit_breaker_status tripped_engine = [(''waha-send'', ''open'', 5, Some (4 * minute))]
   \<and> map (\<lambda>(cname, b). timeout b) (circuit_breakers tripped_engine) = [5 * minute]
   \<and> 20 * minute - 4 * minute \<ge> 5 * minute
   \<and> get_circuit_breaker_status
        (snd (handle_error tripped_engine fixed_hash (20 * minute) (20 * minute + second)
           (campaign_error ''429 rate limit exceeded'') (send_context (20 * minute))))
       = [(''waha-send'', ''open'', 6, Some (20 * minute))]"
proof -
  have "20 * minute - 4 * minute \<ge> 5 * minute"
    by (simp add: minute_def second_def)
  then show ?thesis
    by (simp add: get_circuit_breaker_status_def tripped_breakers sixth_failure_breakers)
qed

section \<open>Properties of the step execution\<close>

lemma execute_step_logic_status:
  "execute_step_logic (step\<lparr>status := s\<rparr>) = execute_step_logic step"
  by (simp add: execute_step_logic_def)

lemma execute_step_logic_dependencies:
  "execute_step_logic (step\<lparr>dependencies := deps\<rparr>) = execute_step_logic step"
  by (simp add: execute_step_logic_def)

text \<open>
  What \<open>process_thinking_step\<close> writes last: \<open>COMPLETED\<close> for a stage of the enum,
  \<open>FAILED\<close> with the text of the \<open>ValueError\<close> for any other value.
\<close>
lemma process_thinking_step_final_status:
  "stage step = Stage st \<Longrightarrow>
   status (fst (snd (process_thinking_step start_time end_time pattern_id step))) = COMPLETED"
  "stage step = Other_value v \<Longrightarrow>
   status (fst (snd (process_thinking_step start_time end_time pattern_id step))) = FAILED
   \<and> errors (fst (snd (process_thinking_step start_time end_time pattern_id step)))
       = errors step @ [''Unknown thinking stage: '' @ v]"
  by (cases st)
    (simp_all add: process_thinking_step_def execute_step_logic_def Let_def)

text \<open>
  C3, as the code has it. \<open>process_thinking_step\<close> sets the step it is given to
  \<open>IN_PROGRESS\<close> at entry, before the step logic runs: for every step, also when a step
  named in its \<open>dependencies\<close> is not \<open>COMPLETED\<close> in the pattern. It does not read
  \<open>dependencies\<close>: another list of dependencies changes nothing in what it writes but
  that field.
\<close>
theorem process_thinking_step_ungated:
  "fst (process_thinking_step start_time end_time pattern_id step) = step\<lparr>status := IN_PROGRESS\<rparr>
   \<and> status (fst (process_thinking_step start_time end_time pattern_id step)) = IN_PROGRESS
   \<and> (\<forall>steps. \<not> dependencies_completed steps step \<longrightarrow>
          status (fst (process_thinking_step start_time end_time pattern_id step)) = IN_PROGRESS)
   \<and> (\<forall>deps.
          fst (process_thinking_step start_time end_time pattern_id (step\<lparr>dependencies := deps\<rparr>))
            = (fst (process_thinking_step start_time end_time pattern_id step))
                \<lparr>dependencies := deps\<rparr>
        \<and> fst (snd (process_thinking_step start_time end_time pattern_id
                      (step\<lparr>dependencies := deps\<rparr>)))
            = (fst (snd (process_thinking_step start_time end_time pattern_id step)))
                \<lparr>dependencies := deps\<rparr>)"
proof -
  have entry: "fst (process_thinking_step start_time end_time pattern_id s)
                 = s\<lparr>status := IN_PROGRESS\<rparr>" for s
    by (cases "execute_step_logic s")
      (simp_all add: process_thinking_step_def Let_def execute_step_logic_status)
  have final: "fst (snd (process_thinking_step start_time end_time pattern_id
                      (step\<lparr>dependencies := deps\<rparr>)))
            = (fst (snd (process_thinking_step start_time end_time pattern_id step)))
                \<lparr>dependencies := deps\<rparr>" for deps
    by (cases "execute_step_logic step")
      (simp_all add: process_thinking_step_def Let_def execute_step_logic_status
         execute_step_logic_dependencies)
  show ?thesis
    by (simp add: entry final)
qed

theorem process_thinking_step_ungated_witness:
  "\<not> dependencies_completed (generate_campaign_steps 0) (generate_campaign_steps 0 ! 2)
   \<and> dependencies (generate_campaign_steps 0 ! 2)
       = [''analyze_audience_data'', ''analyze_historical_performance'']
   \<and> status (fst (process_thinking_step 0 second ''p1'' (generate_campaign_steps 0 ! 2)))
       = IN_PROGRESS"
proof -
  have d: "\<not> dependencies_completed (generate_campaign_steps 0) (generate_campaign_steps 0 ! 2)"
    by (simp add: generate_campaign_steps_def new_step_def dependencies_completed_def)
  have e: "dependencies (generate_campaign_steps 0 ! 2)
       = [''analyze_audience_data'', ''analyze_historical_performance'']"
    by (simp add: generate_campaign_steps_def new_step_def)
  from process_thinking_step_ungated [of 0 second "''p1''" "generate_campaign_steps 0 ! 2"] d
  have "status (fst (process_thinking_step 0 second ''p1'' (generate_campaign_steps 0 ! 2)))
       = IN_PROGRESS"
    by blast
  with d e show ?thesis by blast
qed

text \<open>
  C3 as stated fails: in a freshly generated campaign pattern every step is \<open>PENDING\<close>;
  \<open>analyze_historical_performance\<close> depends on \<open>analyze_audience_data\<close>, which is not
  completed, and processing it sets it \<open>IN_PROGRESS\<close> and then \<open>COMPLETED\<close>.
\<close>
theorem process_thinking_step_counterexample:
  "ts_id (generate_campaign_steps 0 ! 1) = ''analyze_historical_performance''
   \<and> dependencies (generate_campaign_steps 0 ! 1) = [''analyze_audience_data'']
   \<and> status (generate_campaign_steps 0 ! 0) = PENDING
   \<and> status (generate_campaign_steps 0 ! 1) = PENDING
   \<and> \<not> dependencies_completed (generate_campaign_steps 0) (generate_campaign_steps 0 ! 1)
   \<and> status (fst (process_thinking_step 0 second ''p1'' (generate_campaign_steps 0 ! 1)))
       = IN_PROGRESS
   \<and> status (fst (snd (process_thinking_step 0 second ''p1'' (generate_campaign_steps 0 ! 1))))
       = COMPLETED"
  by (simp add: generate_campaign_steps_def new_step_def dependencies_completed_def
        process_thinking_step_def execute_step_logic_def Let_def)

end
